theory Spec2Isabelle
  imports Main
begin

section \<open>JavaScript values and the operations the resolver applies to them\<close>

text \<open>
  The resolver of \<^verbatim>\<open>custom-emoji.js\<close> reads event contents, which are JSON documents written
  by users. A value is one of the JSON shapes, or \<open>undefined\<close> for a property that is not
  there. An object is the list of its own properties in the order \<^verbatim>\<open>Object.entries\<close>
  enumerates them. Numbers are the integers of canonical JSON.
\<close>

datatype json =
    JUndefined
  | JNull
  | JBool bool
  | JNum int
  | JStr string
  | JArr "json list"
  | JObj "(string \<times> json) list"

text \<open>Reading a property of \<open>undefined\<close> or \<open>null\<close>, and calling what is not a function,
  raise a TypeError; nothing else in the module can raise.\<close>

datatype error = TypeError

text \<open>\<^verbatim>\<open>a ?? b\<close>\<close>

definition nullish :: "json \<Rightarrow> bool" where
  "nullish v = (v = JUndefined \<or> v = JNull)"

definition coalesce :: "json \<Rightarrow> json \<Rightarrow> json" where
  "coalesce a b = (if nullish a then b else a)"

text \<open>\<^verbatim>\<open>if (v)\<close>: the falsy values are \<open>undefined\<close>, \<open>null\<close>, \<open>false\<close>, \<open>0\<close> and the empty
  string.\<close>

fun truthy :: "json \<Rightarrow> bool" where
  "truthy JUndefined = False"
| "truthy JNull = False"
| "truthy (JBool b) = b"
| "truthy (JNum n) = (n \<noteq> 0)"
| "truthy (JStr s) = (s \<noteq> [])"
| "truthy (JArr xs) = True"
| "truthy (JObj kvs) = True"

text \<open>
  \<^verbatim>\<open>v.k\<close> for the property names the module reads (\<open>images\<close>, \<open>pack\<close>, \<open>display_name\<close>,
  \<open>avatar_url\<close>, \<open>usage\<close>, \<open>attribution\<close>, \<open>url\<close>, \<open>body\<close>, \<open>info\<close>, \<open>rooms\<close>): none of
  them is a property of a string, number, boolean or array, so only an object can hold one.
  \<open>own_prop\<close> is the value read from a value that is not nullish; \<open>get_prop\<close> adds the
  TypeError of the nullish ones.
\<close>

fun own_prop :: "json \<Rightarrow> string \<Rightarrow> json" where
  "own_prop (JObj kvs) k = (case map_of kvs k of Some v \<Rightarrow> v | None \<Rightarrow> JUndefined)"
| "own_prop v k = JUndefined"

definition get_prop :: "json \<Rightarrow> string \<Rightarrow> error + json" where
  "get_prop v k = (if nullish v then Inl TypeError else Inr (own_prop v k))"

text \<open>Decimal index keys of arrays and strings.\<close>

definition digit_char :: "nat \<Rightarrow> char" where
  "digit_char d = char_of (48 + d)"

function string_of_nat :: "nat \<Rightarrow> string" where
  "string_of_nat n =
     (if n < 10 then [digit_char n] else string_of_nat (n div 10) @ [digit_char (n mod 10)])"
  by pat_completeness auto
termination
  by (relation "measure id") auto

definition indexed :: "'a list \<Rightarrow> (string \<times> 'a) list" where
  "indexed xs = map (\<lambda>(i, x). (string_of_nat i, x)) (zip [0..<length xs] xs)"

text \<open>
  \<^verbatim>\<open>Object.entries(v)\<close>: a TypeError on \<open>undefined\<close> and \<open>null\<close>; the properties of an
  object; the indexed elements of an array; the indexed characters of a string; nothing for
  a number or a boolean.
\<close>

fun object_entries :: "json \<Rightarrow> error + (string \<times> json) list" where
  "object_entries JUndefined = Inl TypeError"
| "object_entries JNull = Inl TypeError"
| "object_entries (JBool b) = Inr []"
| "object_entries (JNum n) = Inr []"
| "object_entries (JStr s) = Inr (indexed (map (\<lambda>c. JStr [c]) s))"
| "object_entries (JArr xs) = Inr (indexed xs)"
| "object_entries (JObj kvs) = Inr kvs"

text \<open>\<^verbatim>\<open>Object.keys(v)\<close>\<close>

definition object_keys :: "json \<Rightarrow> error + string list" where
  "object_keys v = (case object_entries v of Inl e \<Rightarrow> Inl e | Inr kvs \<Rightarrow> Inr (map fst kvs))"

text \<open>\<^verbatim>\<open>xs.indexOf(x)\<close> on an array: the first position holding \<open>x\<close>, or \<open>-1\<close>. Every needle
  of the module is a string or \<open>undefined\<close>, where \<^verbatim>\<open>===\<close> is equality of values.\<close>

fun indexOf_from :: "'a list \<Rightarrow> 'a \<Rightarrow> nat \<Rightarrow> int" where
  "indexOf_from [] x i = -1"
| "indexOf_from (y # ys) x i = (if y = x then int i else indexOf_from ys x (Suc i))"

definition indexOf :: "'a list \<Rightarrow> 'a \<Rightarrow> int" where
  "indexOf xs x = indexOf_from xs x 0"

text \<open>\<^verbatim>\<open>s.indexOf(t)\<close> on a string: the first position where \<open>t\<close> starts, or \<open>-1\<close>.\<close>

fun str_indexOf_from :: "string \<Rightarrow> string \<Rightarrow> nat \<Rightarrow> int" where
  "str_indexOf_from [] t i = (if t = [] then int i else -1)"
| "str_indexOf_from (c # s) t i =
     (if take (length t) (c # s) = t then int i else str_indexOf_from s t (Suc i))"

definition str_indexOf :: "string \<Rightarrow> string \<Rightarrow> int" where
  "str_indexOf s t = str_indexOf_from s t 0"

text \<open>
  \<^verbatim>\<open>u.indexOf(tag) !== -1\<close> for a usage value \<open>u\<close>: arrays and strings have an \<open>indexOf\<close>;
  on any other value the call raises a TypeError (no property of \<open>undefined\<close> or \<open>null\<close>,
  and \<open>u.indexOf\<close> is not a function on numbers, booleans and objects of JSON).
\<close>

fun usage_includes :: "json \<Rightarrow> string \<Rightarrow> error + bool" where
  "usage_includes (JArr xs) tag = Inr (indexOf xs (JStr tag) \<noteq> -1)"
| "usage_includes (JStr s) tag = Inr (str_indexOf s tag \<noteq> -1)"
| "usage_includes v tag = Inl TypeError"

text \<open>Sequencing of two computations that may raise: an exception of the first skips the
  second.\<close>

definition bindE :: "error + 'a \<Rightarrow> ('a \<Rightarrow> error + 'b) \<Rightarrow> error + 'b" where
  "bindE m f = (case m of Inl e \<Rightarrow> Inl e | Inr x \<Rightarrow> f x)"

text \<open>Array methods whose callback may raise: the first exception ends the traversal.\<close>

fun mapE :: "('a \<Rightarrow> error + 'b) \<Rightarrow> 'a list \<Rightarrow> error + 'b list" where
  "mapE f [] = Inr []"
| "mapE f (x # xs) = bindE (f x) (\<lambda>y. bindE (mapE f xs) (\<lambda>ys. Inr (y # ys)))"

definition flatMapE :: "('a \<Rightarrow> error + 'b list) \<Rightarrow> 'a list \<Rightarrow> error + 'b list" where
  "flatMapE f xs = bindE (mapE f xs) (\<lambda>yss. Inr (concat yss))"

fun filterE :: "('a \<Rightarrow> error + bool) \<Rightarrow> 'a list \<Rightarrow> error + 'a list" where
  "filterE p [] = Inr []"
| "filterE p (x # xs) =
     bindE (p x) (\<lambda>b. bindE (filterE p xs) (\<lambda>ys. Inr (if b then x # ys else ys)))"

section \<open>Events, rooms and the client\<close>

text \<open>The raw event object: its content, and the state key and event id when it has them
  (an account-data event has neither: both read \<open>undefined\<close>).\<close>

record raw_event =
  content :: json
  state_key :: "string option"
  event_id :: "string option"

text \<open>What the module reads of a room: \<^verbatim>\<open>room.name\<close>, \<^verbatim>\<open>room.getMxcAvatarUrl()\<close> (a
  string or \<open>null\<close>) and \<^verbatim>\<open>room.currentState.getStateEvents(type)\<close>.\<close>

record room_core =
  name :: string
  getMxcAvatarUrl :: "string option"
  getStateEvents :: "string \<Rightarrow> raw_event list"

text \<open>The client: \<^verbatim>\<open>mx.getAccountData(type)\<close> and \<^verbatim>\<open>mx.getRoom(roomId)\<close>; and a room
  with its \<^verbatim>\<open>room.client\<close>.\<close>

record client =
  getAccountData :: "string \<Rightarrow> raw_event option"
  getRoom :: "string \<Rightarrow> room_core option"

record room = room_core +
  client :: client

section \<open>Image packs\<close>

record image =
  shortcode :: string
  mxc :: json
  body :: json
  info :: json
  image_usage :: json

record ImagePack =
  displayName :: json
  avatar :: json
  usage :: json
  attribution :: json
  images :: "image list"
  event :: raw_event

definition default_usage :: json where
  "default_usage = JArr [JStr ''emoticon'', JStr ''sticker'']"

text \<open>The callback of \<^verbatim>\<open>flatMap\<close> in \<open>parsePack\<close>: \<open>e\<close> is one entry of the images
  mapping, \<open>usage\<close> the usage of the pack.\<close>

definition parseImage :: "json \<Rightarrow> string \<times> json \<Rightarrow> error + image list" where
  "parseImage usage' e =
     (let data = snd e; shortcode' = fst e in
      bindE (get_prop data ''url'') (\<lambda>mxc'.
      bindE (get_prop data ''body'') (\<lambda>body0.
      bindE (get_prop data ''info'') (\<lambda>info'.
      bindE (get_prop data ''usage'') (\<lambda>usage0.
        if truthy mxc'
        then Inr [\<lparr>shortcode = shortcode', mxc = mxc',
                   body = coalesce body0 (JStr shortcode'), info = info',
                   image_usage = coalesce usage0 usage'\<rparr>]
        else Inr [])))))"

text \<open>\<^verbatim>\<open>ImagePack.parsePack(rawPack, room)\<close>; \<open>null\<close> is \<open>None\<close>, and a call without the
  room passes \<open>None\<close> for it.\<close>

definition parsePack :: "raw_event \<Rightarrow> 'a room_core_scheme option \<Rightarrow> error + ImagePack option" where
  "parsePack rawPack room' =
     bindE (get_prop (content rawPack) ''images'') (\<lambda>images0.
      if images0 = JUndefined then Inr None
      else
        let pack = coalesce (own_prop (content rawPack) ''pack'') (JObj []);
            displayName' = coalesce (own_prop pack ''display_name'')
               (case room' of Some r \<Rightarrow> JStr (name r) | None \<Rightarrow> JUndefined);
            avatar' = coalesce (own_prop pack ''avatar_url'')
               (case room' of
                  Some r \<Rightarrow> (case getMxcAvatarUrl r of Some u \<Rightarrow> JStr u | None \<Rightarrow> JNull)
                | None \<Rightarrow> JUndefined);
            usage' = coalesce (own_prop pack ''usage'') default_usage;
            attribution' = own_prop pack ''attribution''
        in
        bindE (object_entries images0) (\<lambda>es.
        bindE (flatMapE (parseImage usage') es) (\<lambda>images'.
          Inr (Some \<lparr>displayName = displayName', avatar = avatar', usage = usage',
                     attribution = attribution', images = images', event = rawPack\<rparr>))))"

text \<open>\<^verbatim>\<open>pack.getEmojis()\<close> and \<^verbatim>\<open>pack.getStickers()\<close>\<close>

definition getEmojis :: "ImagePack \<Rightarrow> error + image list" where
  "getEmojis pack = filterE (\<lambda>i. usage_includes (image_usage i) ''emoticon'') (images pack)"

definition getStickers :: "ImagePack \<Rightarrow> error + image list" where
  "getStickers pack = filterE (\<lambda>i. usage_includes (image_usage i) ''sticker'') (images pack)"

section \<open>The sources of packs\<close>

text \<open>\<^verbatim>\<open>getUserImagePack(mx)\<close>\<close>

definition getUserImagePack :: "client \<Rightarrow> error + ImagePack option" where
  "getUserImagePack mx =
     (case getAccountData mx ''im.ponies.user_emotes'' of
        None \<Rightarrow> Inr None
      | Some accountDataEmoji \<Rightarrow>
          bindE (parsePack accountDataEmoji (None :: room_core option)) (\<lambda>userImagePack.
            case userImagePack of
              None \<Rightarrow> Inr None
            | Some p \<Rightarrow>
                Inr (Some (p\<lparr>displayName := coalesce (displayName p) (JStr ''Your Emoji'')\<rparr>))))"

text \<open>\<^verbatim>\<open>getPacksInRoom(room)\<close>: the packs that parse to \<open>null\<close> are filtered out.\<close>

definition getPacksInRoom :: "'a room_core_scheme \<Rightarrow> error + ImagePack list" where
  "getPacksInRoom room' =
     bindE (mapE (\<lambda>p. parsePack p (Some room')) (getStateEvents room' ''im.ponies.room_emotes''))
       (\<lambda>packs. Inr (concat (map (\<lambda>p. case p of None \<Rightarrow> [] | Some q \<Rightarrow> [q]) packs)))"

text \<open>\<^verbatim>\<open>getFromImagePackRooms(mx)\<close>. The callback of its \<^verbatim>\<open>flatMap\<close> reads the keys before
  it looks the room up.\<close>

definition packsOfEmoteRoom :: "client \<Rightarrow> string \<times> json \<Rightarrow> error + ImagePack list" where
  "packsOfEmoteRoom mx e =
     (let roomId = fst e; keyObjects = snd e in
      bindE (object_keys keyObjects) (\<lambda>keys.
        case getRoom mx roomId of
          Some room' \<Rightarrow>
            bindE (getPacksInRoom room') (\<lambda>packs.
              Inr (filter (\<lambda>pack. indexOf (map Some keys) (state_key (event pack)) \<noteq> -1) packs))
        | None \<Rightarrow> Inr []))"

definition getFromImagePackRooms :: "client \<Rightarrow> error + ImagePack list" where
  "getFromImagePackRooms mx =
     (let eventContent =
            (case getAccountData mx ''im.ponies.emote_rooms'' of
               None \<Rightarrow> JObj []
             | Some accountDataEvent \<Rightarrow> content accountDataEvent) in
      bindE (get_prop eventContent ''rooms'') (\<lambda>rooms0.
        let emoteRooms = coalesce rooms0 (JObj []) in
        bindE (object_entries emoteRooms) (\<lambda>es.
          flatMapE (packsOfEmoteRoom mx) es)))"

text \<open>\<^verbatim>\<open>getRelevantPacks(room)\<close>: \<^verbatim>\<open>[].concat\<close> appends the personal pack when there is
  one and the elements of the two lists; the filter keeps a pack when the first position of
  its event id is its own position.\<close>

definition getRelevantPacks :: "room \<Rightarrow> error + ImagePack list" where
  "getRelevantPacks room' =
     bindE (getUserImagePack (client room')) (\<lambda>user.
     bindE (getPacksInRoom room') (\<lambda>inRoom.
     bindE (getFromImagePackRooms (client room')) (\<lambda>fromRooms.
       let packs = (case user of None \<Rightarrow> [] | Some p \<Rightarrow> [p]) @ inRoom @ fromRooms;
           events = map (\<lambda>pack. event_id (event pack)) packs
       in Inr (map fst (filter (\<lambda>(pack, indx). indexOf events (event_id (event pack)) = int indx)
                          (zip packs [0..<length packs]))))))"

section \<open>Shortcode resolution\<close>

text \<open>
  The table of standard emoji, \<^verbatim>\<open>emojis\<close> of \<^verbatim>\<open>./emoji\<close>, is a parameter of the two
  functions that read it. Of an entry they read \<^verbatim>\<open>shortcode\<close>, its primary shortcode
  (\<open>std_shortcode\<close> here, as the images have a \<open>shortcode\<close> too), and \<^verbatim>\<open>shortcodes\<close>,
  which is one string or an array of strings. Nothing is assumed of how the two relate, nor
  of the table as a whole.
\<close>

datatype shortcodes = Single string | Array "string list"

record std_emoji =
  unicode :: string
  std_shortcode :: string
  std_shortcodes :: shortcodes

text \<open>A value of the maps below is a standard emoji or an image of a pack.\<close>

datatype emoji = Standard std_emoji | Custom image

fun emoji_shortcode :: "emoji \<Rightarrow> string" where
  "emoji_shortcode (Standard e) = std_shortcode e"
| "emoji_shortcode (Custom i) = shortcode i"

text \<open>
  A \<^verbatim>\<open>Map\<close> keeps its keys in the order of their first insertion: \<^verbatim>\<open>set\<close> on a key that
  is there replaces the value in place, on a new key it appends.
\<close>

fun Map_set :: "('k \<times> 'v) list \<Rightarrow> 'k \<Rightarrow> 'v \<Rightarrow> ('k \<times> 'v) list" where
  "Map_set [] k v = [(k, v)]"
| "Map_set ((k', v') # m) k v = (if k' = k then (k, v) # m else (k', v') # Map_set m k v)"

definition Map_has :: "('k \<times> 'v) list \<Rightarrow> 'k \<Rightarrow> bool" where
  "Map_has m k = (k \<in> set (map fst m))"

definition Map_get :: "('k \<times> 'v) list \<Rightarrow> 'k \<Rightarrow> 'v option" where
  "Map_get m k = map_of m k"

definition Map_values :: "('k \<times> 'v) list \<Rightarrow> 'v list" where
  "Map_values m = map snd m"

text \<open>The first loop of \<open>getShortcodeToEmoji\<close>, over the standard emoji.\<close>

definition setStandard :: "(string \<times> emoji) list \<Rightarrow> std_emoji \<Rightarrow> (string \<times> emoji) list" where
  "setStandard allEmoji e =
     (case std_shortcodes e of
        Array ss \<Rightarrow> foldl (\<lambda>m sc. Map_set m sc (Standard e)) allEmoji ss
      | Single sc \<Rightarrow> Map_set allEmoji sc (Standard e))"

definition getShortcodeToEmoji :: "std_emoji list \<Rightarrow> room \<Rightarrow> error + (string \<times> emoji) list" where
  "getShortcodeToEmoji emojis room' =
     (let allEmoji = foldl setStandard [] emojis in
      bindE (getRelevantPacks room') (\<lambda>packs.
      bindE (flatMapE getEmojis (rev packs)) (\<lambda>es.
        Inr (foldl (\<lambda>m emoji. Map_set m (shortcode emoji) (Custom emoji)) allEmoji es))))"

definition getEmojiForCompletion :: "std_emoji list \<Rightarrow> room \<Rightarrow> error + emoji list" where
  "getEmojiForCompletion emojis room' =
     bindE (getRelevantPacks room') (\<lambda>packs.
     bindE (flatMapE getEmojis (rev packs)) (\<lambda>es.
       let allEmoji = foldl (\<lambda>m emoji. Map_set m (shortcode emoji) (Custom emoji)) [] es in
       Inr (map Standard (filter (\<lambda>e. \<not> Map_has allEmoji (std_shortcode e)) emojis)
            @ Map_values allEmoji)))"

section \<open>Notions of the specification\<close>

text \<open>
  An image entry as the data model describes it: the shortcode is the key, the media
  reference the \<open>url\<close>, the body defaults to the shortcode, and the usage is that of the
  pack unless the entry has its own.
\<close>

definition imageOf :: "json \<Rightarrow> string \<times> json \<Rightarrow> image" where
  "imageOf packUsage e =
     \<lparr>shortcode = fst e,
      mxc = own_prop (snd e) ''url'',
      body = (if nullish (own_prop (snd e) ''body'') then JStr (fst e)
              else own_prop (snd e) ''body''),
      info = own_prop (snd e) ''info'',
      image_usage = (if nullish (own_prop (snd e) ''usage'') then packUsage
                     else own_prop (snd e) ''usage'')\<rparr>"

text \<open>An entry has a media reference when its \<open>url\<close> is a value that counts as true.\<close>

definition hasUrl :: "string \<times> json \<Rightarrow> bool" where
  "hasUrl e = truthy (own_prop (snd e) ''url'')"

text \<open>The pack an event with the image entries \<open>es\<close> denotes.\<close>

definition packOf :: "raw_event \<Rightarrow> 'a room_core_scheme option \<Rightarrow> (string \<times> json) list \<Rightarrow> ImagePack" where
  "packOf rawPack room' es =
     (let pack = coalesce (own_prop (content rawPack) ''pack'') (JObj []);
          u = coalesce (own_prop pack ''usage'') default_usage in
      \<lparr>displayName = coalesce (own_prop pack ''display_name'')
         (case room' of Some r \<Rightarrow> JStr (name r) | None \<Rightarrow> JUndefined),
       avatar = coalesce (own_prop pack ''avatar_url'')
         (case room' of
            Some r \<Rightarrow> (case getMxcAvatarUrl r of Some a \<Rightarrow> JStr a | None \<Rightarrow> JNull)
          | None \<Rightarrow> JUndefined),
       usage = u,
       attribution = own_prop pack ''attribution'',
       images = map (imageOf u) (filter hasUrl es),
       event = rawPack\<rparr>)"

text \<open>Deduplication by a key, the first occurrence kept: \<open>seen\<close> holds the keys of the
  elements already passed.\<close>

fun keepFirst :: "('a \<Rightarrow> 'k) \<Rightarrow> 'k list \<Rightarrow> 'a list \<Rightarrow> 'a list" where
  "keepFirst key seen [] = []"
| "keepFirst key seen (x # xs) =
     (if key x \<in> set seen then keepFirst key seen xs
      else x # keepFirst key (key x # seen) xs)"

definition dedupFirst :: "('a \<Rightarrow> 'k) \<Rightarrow> 'a list \<Rightarrow> 'a list" where
  "dedupFirst key xs = keepFirst key [] xs"

definition sourceEventId :: "ImagePack \<Rightarrow> string option" where
  "sourceEventId pack = event_id (event pack)"

text \<open>The packs of a room: of its pack state events, those that parse to a pack.\<close>

definition parsedPacks :: "'a room_core_scheme \<Rightarrow> ImagePack list" where
  "parsedPacks room' =
     concat (map (\<lambda>ev. case parsePack ev (Some room') of Inr (Some p) \<Rightarrow> [p] | _ \<Rightarrow> [])
                 (getStateEvents room' ''im.ponies.room_emotes''))"

text \<open>What one entry of \<open>im.ponies.emote_rooms\<close> contributes: nothing when the client has
  not loaded the room, else the packs of the room whose state key is one of the keys of the
  entry.\<close>

definition enabledPacks :: "client \<Rightarrow> string \<times> (string \<times> json) list \<Rightarrow> ImagePack list" where
  "enabledPacks mx e =
     (case getRoom mx (fst e) of
        None \<Rightarrow> []
      | Some room' \<Rightarrow>
          filter (\<lambda>p. case state_key (event p) of
                         None \<Rightarrow> False
                       | Some k \<Rightarrow> k \<in> set (map fst (snd e)))
                 (parsedPacks room'))"

text \<open>The custom emoji of a room, in the order the two resolving loops set them: the emoji
  of the relevant packs, the pack of least priority first.\<close>

definition customEmojis :: "room \<Rightarrow> error + image list" where
  "customEmojis room' =
     bindE (getRelevantPacks room') (\<lambda>packs. flatMapE getEmojis (rev packs))"

text \<open>A pack defines the shortcode \<open>x\<close> as the emoji \<open>e\<close> when \<open>e\<close> is its one emoji with
  that shortcode.\<close>

definition definesEmoji :: "ImagePack \<Rightarrow> string \<Rightarrow> image \<Rightarrow> bool" where
  "definesEmoji pack x e =
     (case getEmojis pack of
        Inr es \<Rightarrow> filter (\<lambda>i. shortcode i = x) es = [e]
      | Inl err \<Rightarrow> False)"

text \<open>The usage of an image includes the tag \<open>emoticon\<close>.\<close>

definition isEmoticon :: "image \<Rightarrow> bool" where
  "isEmoticon i = (usage_includes (image_usage i) ''emoticon'' = Inr True)"

text \<open>A pack has an emoji with the shortcode \<open>x\<close>.\<close>

definition hasShortcode :: "ImagePack \<Rightarrow> string \<Rightarrow> bool" where
  "hasShortcode pack x = (x \<in> set (map shortcode (filter isEmoticon (images pack))))"

text \<open>
  The definition of the shortcode \<open>x\<close> that has priority in a list of packs, the pack of
  highest priority first: that of the first pack that has an emoji with the shortcode (the
  last such emoji of that pack, should it have several).
\<close>

fun priorityDefinition :: "ImagePack list \<Rightarrow> string \<Rightarrow> image option" where
  "priorityDefinition [] x = None"
| "priorityDefinition (p # ps) x =
     (case filter (\<lambda>i. shortcode i = x) (filter isEmoticon (images p)) of
        [] \<Rightarrow> priorityDefinition ps x
      | e # es \<Rightarrow> Some (last (e # es)))"

section \<open>Auxiliary notions of the proofs\<close>

text \<open>The filter of \<open>getRelevantPacks\<close>, for any key in place of the event id.\<close>

definition firstOccurrences :: "('a \<Rightarrow> 'k) \<Rightarrow> 'a list \<Rightarrow> 'a list" where
  "firstOccurrences key xs =
     map fst (filter (\<lambda>(x, indx). indexOf (map key xs) (key x) = int indx)
                     (zip xs [0..<length xs]))"

text \<open>The loop that sets the custom emoji, shared by \<open>getShortcodeToEmoji\<close> and
  \<open>getEmojiForCompletion\<close>.\<close>

definition setCustom :: "(string \<times> emoji) list \<Rightarrow> image list \<Rightarrow> (string \<times> emoji) list" where
  "setCustom allEmoji es =
     foldl (\<lambda>m emoji. Map_set m (shortcode emoji) (Custom emoji)) allEmoji es"

section \<open>An example session\<close>

text \<open>
  The user has a personal pack; the room \<open>!c:x\<close> they are in has one pack; the room \<open>!r:x\<close>
  has the packs \<open>pack1\<close> and \<open>pack2\<close>. The user has enabled \<open>pack1\<close> of \<open>!r:x\<close>, the pack
  of \<open>!c:x\<close>, and a pack of a room \<open>!gone:x\<close> that the client has not loaded. The shortcode
  \<open>x\<close> is defined by the personal pack, by the pack of \<open>!c:x\<close> and by \<open>pack1\<close>, and it is
  an alias of a standard emoji.
\<close>

definition userEmotes :: raw_event where
  "userEmotes =
     \<lparr>content = JObj [(''images'', JObj [(''x'', JObj [(''url'', JStr ''mxc://u/x'')])])],
      state_key = None, event_id = None\<rparr>"

definition roomEmotes :: raw_event where
  "roomEmotes =
     \<lparr>content = JObj
        [(''pack'', JObj [(''display_name'', JStr ''Here'')]),
         (''images'', JObj
            [(''x'', JObj [(''url'', JStr ''mxc://c/x'')]),
             (''nourl'', JObj [(''body'', JStr ''B'')]),
             (''stick'', JObj [(''url'', JStr ''mxc://c/s''),
                              (''usage'', JArr [JStr ''sticker''])])])],
      state_key = Some [], event_id = Some ''$c''\<rparr>"

definition pack1Event :: raw_event where
  "pack1Event =
     \<lparr>content = JObj
        [(''images'', JObj
            [(''x'', JObj [(''url'', JStr ''mxc://r/x'')]),
             (''z'', JObj [(''url'', JStr ''mxc://r/z''), (''body'', JStr ''Zed'')])])],
      state_key = Some ''pack1'', event_id = Some ''$1''\<rparr>"

definition pack2Event :: raw_event where
  "pack2Event =
     \<lparr>content = JObj [(''images'', JObj [(''y'', JObj [(''url'', JStr ''mxc://r/y'')])])],
      state_key = Some ''pack2'', event_id = Some ''$2''\<rparr>"

definition enabledRooms :: "(string \<times> (string \<times> json) list) list" where
  "enabledRooms =
     [(''!r:x'', [(''pack1'', JObj [])]),
      (''!c:x'', [([], JObj [])]),
      (''!gone:x'', [(''pack1'', JObj [])])]"

definition emoteRooms :: raw_event where
  "emoteRooms =
     \<lparr>content = JObj
        [(''rooms'', JObj
            [(''!r:x'', JObj [(''pack1'', JObj [])]),
             (''!c:x'', JObj [([], JObj [])]),
             (''!gone:x'', JObj [(''pack1'', JObj [])])])],
      state_key = None, event_id = None\<rparr>"

definition packRoom :: room_core where
  "packRoom =
     \<lparr>name = ''Packs'', getMxcAvatarUrl = None,
      getStateEvents =
        (\<lambda>t. if t = ''im.ponies.room_emotes'' then [pack1Event, pack2Event] else [])\<rparr>"

definition chatRoom :: room_core where
  "chatRoom =
     \<lparr>name = ''Chat'', getMxcAvatarUrl = Some ''mxc://c/avatar'',
      getStateEvents = (\<lambda>t. if t = ''im.ponies.room_emotes'' then [roomEmotes] else [])\<rparr>"

definition sampleClient :: client where
  "sampleClient =
     \<lparr>getAccountData =
        (\<lambda>t. if t = ''im.ponies.user_emotes'' then Some userEmotes
             else if t = ''im.ponies.emote_rooms'' then Some emoteRooms
             else None),
      getRoom =
        (\<lambda>r. if r = ''!r:x'' then Some packRoom
             else if r = ''!c:x'' then Some chatRoom
             else None)\<rparr>"

definition sampleRoom :: room where
  "sampleRoom =
     \<lparr>name = ''Chat'', getMxcAvatarUrl = Some ''mxc://c/avatar'',
      getStateEvents = (\<lambda>t. if t = ''im.ponies.room_emotes'' then [roomEmotes] else []),
      client = sampleClient\<rparr>"

definition grinning :: std_emoji where
  "grinning =
     \<lparr>unicode = ''U+1F600'', std_shortcode = ''grinning'',
      std_shortcodes = Array [''grinning'', ''x'']\<rparr>"

definition zzz :: std_emoji where
  "zzz = \<lparr>unicode = ''U+1F4A4'', std_shortcode = ''z'', std_shortcodes = Single ''z''\<rparr>"

definition sampleEmojis :: "std_emoji list" where
  "sampleEmojis = [grinning, zzz]"

text \<open>The packs and images the events above denote.\<close>

definition emoticonImage :: "string \<Rightarrow> string \<Rightarrow> image" where
  "emoticonImage sc url =
     \<lparr>shortcode = sc, mxc = JStr url, body = JStr sc, info = JUndefined,
      image_usage = default_usage\<rparr>"

definition stickerImage :: image where
  "stickerImage =
     \<lparr>shortcode = ''stick'', mxc = JStr ''mxc://c/s'', body = JStr ''stick'', info = JUndefined,
      image_usage = JArr [JStr ''sticker'']\<rparr>"

definition zedImage :: image where
  "zedImage =
     \<lparr>shortcode = ''z'', mxc = JStr ''mxc://r/z'', body = JStr ''Zed'', info = JUndefined,
      image_usage = default_usage\<rparr>"

definition personalPack :: ImagePack where
  "personalPack =
     \<lparr>displayName = JStr ''Your Emoji'', avatar = JUndefined, usage = default_usage,
      attribution = JUndefined, images = [emoticonImage ''x'' ''mxc://u/x''],
      event = userEmotes\<rparr>"

definition roomPack :: ImagePack where
  "roomPack =
     \<lparr>displayName = JStr ''Here'', avatar = JStr ''mxc://c/avatar'', usage = default_usage,
      attribution = JUndefined,
      images = [emoticonImage ''x'' ''mxc://c/x'', stickerImage],
      event = roomEmotes\<rparr>"

definition pack1 :: ImagePack where
  "pack1 =
     \<lparr>displayName = JStr ''Packs'', avatar = JNull, usage = default_usage,
      attribution = JUndefined,
      images = [emoticonImage ''x'' ''mxc://r/x'', zedImage],
      event = pack1Event\<rparr>"

definition pack2 :: ImagePack where
  "pack2 =
     \<lparr>displayName = JStr ''Packs'', avatar = JNull, usage = default_usage,
      attribution = JUndefined,
      images = [emoticonImage ''y'' ''mxc://r/y''],
      event = pack2Event\<rparr>"

definition sampleMap :: "(string \<times> emoji) list" where
  "sampleMap =
     [(''grinning'', Standard grinning),
      (''x'', Custom (emoticonImage ''x'' ''mxc://u/x'')),
      (''z'', Custom zedImage)]"

definition sampleCompletion :: "emoji list" where
  "sampleCompletion =
     [Standard grinning, Custom (emoticonImage ''x'' ''mxc://u/x''), Custom zedImage]"

text \<open>A pack event with an image entry that is \<open>null\<close>, a room holding it, a client
  with no account data, and a client whose enabled keys of a room are \<open>null\<close>.\<close>

definition brokenEvent :: raw_event where
  "brokenEvent =
     \<lparr>content = JObj [(''images'', JObj [(''x'', JNull)])],
      state_key = Some ''broken'', event_id = Some ''$b''\<rparr>"

definition emptyClient :: client where
  "emptyClient = \<lparr>getAccountData = (\<lambda>t. None), getRoom = (\<lambda>r. None)\<rparr>"

definition nullKeysClient :: client where
  "nullKeysClient =
     \<lparr>getAccountData =
        (\<lambda>t. if t = ''im.ponies.emote_rooms''
             then Some \<lparr>content = JObj [(''rooms'', JObj [(''!gone:x'', JNull)])],
                        state_key = None, event_id = None\<rparr>
             else None),
      getRoom = (\<lambda>r. None)\<rparr>"

definition brokenRoom :: room where
  "brokenRoom =
     \<lparr>name = ''Broken'', getMxcAvatarUrl = None,
      getStateEvents = (\<lambda>t. if t = ''im.ponies.room_emotes'' then [brokenEvent] else []),
      client = emptyClient\<rparr>"

text \<open>The same session for a user whose personal pack does not define \<open>x\<close>.\<close>

definition userEmotesNoX :: raw_event where
  "userEmotesNoX =
     \<lparr>content = JObj [(''images'', JObj [(''u'', JObj [(''url'', JStr ''mxc://u/u'')])])],
      state_key = None, event_id = None\<rparr>"

definition otherClient :: client where
  "otherClient =
     \<lparr>getAccountData =
        (\<lambda>t. if t = ''im.ponies.user_emotes'' then Some userEmotesNoX
             else if t = ''im.ponies.emote_rooms'' then Some emoteRooms
             else None),
      getRoom =
        (\<lambda>r. if r = ''!r:x'' then Some packRoom
             else if r = ''!c:x'' then Some chatRoom
             else None)\<rparr>"

definition otherRoom :: room where
  "otherRoom =
     \<lparr>name = ''Chat'', getMxcAvatarUrl = Some ''mxc://c/avatar'',
      getStateEvents = (\<lambda>t. if t = ''im.ponies.room_emotes'' then [roomEmotes] else []),
      client = otherClient\<rparr>"

definition otherPersonal :: ImagePack where
  "otherPersonal =
     \<lparr>displayName = JStr ''Your Emoji'', avatar = JUndefined, usage = default_usage,
      attribution = JUndefined, images = [emoticonImage ''u'' ''mxc://u/u''],
      event = userEmotesNoX\<rparr>"

definition otherMap :: "(string \<times> emoji) list" where
  "otherMap =
     [(''grinning'', Standard grinning),
      (''x'', Custom (emoticonImage ''x'' ''mxc://c/x'')),
      (''z'', Custom zedImage),
      (''u'', Custom (emoticonImage ''u'' ''mxc://u/u''))]"

section \<open>Properties\<close>


subsection \<open>Exceptions\<close>

lemma bindE_Inl [simp]: "bindE (Inl e) f = Inl e"
  by (simp add: bindE_def)

lemma bindE_Inr [simp]: "bindE (Inr x) f = f x"
  by (simp add: bindE_def)

lemma bindE_eq_Inr: "bindE m f = Inr y \<longleftrightarrow> (\<exists>x. m = Inr x \<and> f x = Inr y)"
  by (cases m) auto

lemma get_prop_eq_Inr: "get_prop v k = Inr w \<longleftrightarrow> \<not> nullish v \<and> w = own_prop v k"
  by (auto simp: get_prop_def)

lemma mapE_total: "(\<forall>x\<in>set xs. f x = Inr (g x)) \<Longrightarrow> mapE f xs = Inr (map g xs)"
  by (induction xs) auto

lemma mapE_Inr_projr: "mapE f xs = Inr ys \<Longrightarrow> ys = map (\<lambda>x. projr (f x)) xs"
  by (induction xs arbitrary: ys) (auto simp: bindE_eq_Inr)

lemma mapE_Inr_D: "mapE f xs = Inr ys \<Longrightarrow> x \<in> set xs \<Longrightarrow> f x = Inr (projr (f x))"
  by (induction xs arbitrary: ys) (auto simp: bindE_eq_Inr)

lemma filterE_Inr: "filterE p xs = Inr ys \<Longrightarrow> ys = filter (\<lambda>x. p x = Inr True) xs"
  by (induction xs arbitrary: ys) (auto simp: bindE_eq_Inr)

subsection \<open>Parsing a pack\<close>

lemma parseImage_eq:
  "parseImage u e =
     (if nullish (snd e) then Inl TypeError
      else Inr (if hasUrl e then [imageOf u e] else []))"
  by (simp add: parseImage_def get_prop_def imageOf_def hasUrl_def coalesce_def Let_def)

lemma concat_map_if:
  "concat (map (\<lambda>e. if P e then [f e] else []) es) = map f (filter P es)"
  by (induction es) auto

lemma flatMapE_parseImage_total:
  assumes "\<forall>e\<in>set es. \<not> nullish (snd e)"
  shows "flatMapE (parseImage u) es = Inr (map (imageOf u) (filter hasUrl es))"
proof -
  have "mapE (parseImage u) es = Inr (map (\<lambda>e. if hasUrl e then [imageOf u e] else []) es)"
    using assms by (intro mapE_total) (simp add: parseImage_eq)
  then show ?thesis
    by (simp add: flatMapE_def concat_map_if)
qed

lemma flatMapE_parseImage_Inr_D:
  assumes "flatMapE (parseImage u) es = Inr imgs" and "e \<in> set es"
  shows "\<not> nullish (snd e)"
proof -
  from assms(1) obtain yss where "mapE (parseImage u) es = Inr yss"
    by (auto simp: flatMapE_def bindE_eq_Inr)
  from mapE_Inr_D [OF this assms(2)] show ?thesis
    by (auto simp: parseImage_eq split: if_splits)
qed

lemma parsePack_eq_Some:
  "parsePack rawPack room' = Inr (Some p) \<longleftrightarrow>
     \<not> nullish (content rawPack) \<and>
     (\<exists>es. object_entries (own_prop (content rawPack) ''images'') = Inr es \<and>
           (\<forall>e\<in>set es. \<not> nullish (snd e)) \<and> p = packOf rawPack room' es)"
  (is "?L \<longleftrightarrow> ?R")
proof
  assume ?L
  then obtain es imgs where c: "\<not> nullish (content rawPack)"
    and es: "object_entries (own_prop (content rawPack) ''images'') = Inr es"
    and imgs: "flatMapE (parseImage (coalesce (own_prop (coalesce (own_prop (content rawPack) ''pack'') (JObj [])) ''usage'') default_usage)) es = Inr imgs"
    and p: "p = (packOf rawPack room' es)\<lparr>images := imgs\<rparr>"
    by (auto simp: parsePack_def bindE_eq_Inr get_prop_eq_Inr Let_def packOf_def split: if_splits)
  have nn: "\<forall>e\<in>set es. \<not> nullish (snd e)"
    using flatMapE_parseImage_Inr_D [OF imgs] by blast
  from flatMapE_parseImage_total [OF nn] imgs p have "p = packOf rawPack room' es"
    by (simp add: packOf_def Let_def)
  with c es nn show ?R by blast
next
  assume ?R
  then obtain es where c: "\<not> nullish (content rawPack)"
    and es: "object_entries (own_prop (content rawPack) ''images'') = Inr es"
    and nn: "\<forall>e\<in>set es. \<not> nullish (snd e)" and p: "p = packOf rawPack room' es"
    by blast
  from es have "own_prop (content rawPack) ''images'' \<noteq> JUndefined"
    by auto
  with c es p flatMapE_parseImage_total [OF nn] show ?L
    by (simp add: parsePack_def get_prop_def Let_def packOf_def)
qed

lemma parsePack_eq_None:
  "parsePack rawPack room' = Inr None \<longleftrightarrow>
     \<not> nullish (content rawPack) \<and> own_prop (content rawPack) ''images'' = JUndefined"
  by (auto simp: parsePack_def bindE_eq_Inr get_prop_eq_Inr Let_def split: if_splits)

lemma packOf_sel [simp]:
  "images (packOf rawPack room' es) = map (imageOf (usage (packOf rawPack room' es))) (filter hasUrl es)"
  "event (packOf rawPack room' es) = rawPack"
  by (simp_all add: packOf_def Let_def)

lemma imageOf_sel [simp]:
  "shortcode (imageOf u e) = fst e" "mxc (imageOf u e) = own_prop (snd e) ''url''"
  by (simp_all add: imageOf_def)

text \<open>An event whose content has no \<open>images\<close> property parses to \<open>null\<close>.\<close>

lemma parsePack_no_images:
  assumes "\<not> nullish (content rawPack)"
    and "own_prop (content rawPack) ''images'' = JUndefined"
  shows "parsePack rawPack room' = Inr None"
  using assms by (simp add: parsePack_eq_None)

text \<open>The image list of a pack that was parsed: the entries with a media reference.\<close>

lemma parsePack_images:
  assumes "parsePack rawPack room' = Inr (Some p)"
  shows "\<exists>es. object_entries (own_prop (content rawPack) ''images'') = Inr es \<and>
      images p = map (imageOf (usage p)) (filter hasUrl es) \<and>
      (\<forall>e\<in>set es. \<not> hasUrl e \<longrightarrow> imageOf (usage p) e \<notin> set (images p)) \<and>
      (\<forall>e\<in>set es. hasUrl e \<longrightarrow> imageOf (usage p) e \<in> set (images p))"
proof -
  from assms obtain es where es: "object_entries (own_prop (content rawPack) ''images'') = Inr es"
    and p: "p = packOf rawPack room' es"
    by (auto simp: parsePack_eq_Some)
  have 1: "images p = map (imageOf (usage p)) (filter hasUrl es)"
    by (simp add: p)
  have 2: "imageOf (usage p) e \<notin> set (images p)" if "\<not> hasUrl e" for e
  proof
    assume "imageOf (usage p) e \<in> set (images p)"
    then obtain e' where "hasUrl e'" "imageOf (usage p) e = imageOf (usage p) e'"
      unfolding 1 by auto
    then have "mxc (imageOf (usage p) e) = mxc (imageOf (usage p) e')" by simp
    with \<open>hasUrl e'\<close> that show False by (simp add: hasUrl_def)
  qed
  have 3: "imageOf (usage p) e \<in> set (images p)" if "e \<in> set es" "hasUrl e" for e
    unfolding 1 using that by simp
  from es 1 2 3 show ?thesis by blast
qed

lemma snd_indexed: "e \<in> set (indexed xs) \<Longrightarrow> snd e \<in> set xs"
  by (auto simp: indexed_def dest: set_zip_rightD)

lemma parsePack_no_entry_with_url:
  assumes "\<not> nullish (content rawPack)"
    and "object_entries (own_prop (content rawPack) ''images'') = Inr es"
    and "\<forall>e\<in>set es. \<not> nullish (snd e) \<and> \<not> hasUrl e"
  shows "\<exists>q. parsePack rawPack room' = Inr (Some q) \<and> images q = []"
proof -
  from assms have "parsePack rawPack room' = Inr (Some (packOf rawPack room' es))"
    by (auto simp: parsePack_eq_Some)
  moreover from assms(3) have "filter hasUrl es = []"
    by (simp add: filter_empty_conv)
  ultimately show ?thesis
    by simp
qed

text \<open>
  Claim C5, as amended. An ImagePack is constructed by \<open>parsePack\<close> only when the content
  of the source event has an \<open>images\<close> property, one that is neither \<open>undefined\<close> nor
  \<open>null\<close>; for an event whose \<open>images\<close> property is absent no ImagePack is produced. The
  property need not be a mapping with entries: an empty mapping, a number, a boolean and a
  string each produce an ImagePack, with an empty image list.
\<close>

theorem parsePack_declared_images:
  "(parsePack rawPack room' = Inr (Some p) \<longrightarrow>
      \<not> nullish (content rawPack) \<and> \<not> nullish (own_prop (content rawPack) ''images'')) \<and>
   (own_prop (content rawPack) ''images'' = JUndefined \<longrightarrow>
      parsePack rawPack room' \<noteq> Inr (Some p)) \<and>
   (\<not> nullish (content rawPack) \<and>
    (own_prop (content rawPack) ''images'' = JObj [] \<or>
     own_prop (content rawPack) ''images'' = JNum n \<or>
     own_prop (content rawPack) ''images'' = JBool b \<or>
     own_prop (content rawPack) ''images'' = JStr s) \<longrightarrow>
      (\<exists>q. parsePack rawPack room' = Inr (Some q) \<and> images q = []))"
proof -
  have 1: "\<not> nullish (content rawPack) \<and> \<not> nullish (own_prop (content rawPack) ''images'')"
    if "parsePack rawPack room' = Inr (Some p)"
  proof -
    from that obtain es where "\<not> nullish (content rawPack)"
      and "object_entries (own_prop (content rawPack) ''images'') = Inr es"
      by (auto simp: parsePack_eq_Some)
    then show ?thesis
      by (auto simp: nullish_def)
  qed
  have 2: "parsePack rawPack room' \<noteq> Inr (Some p)"
    if "own_prop (content rawPack) ''images'' = JUndefined"
    using 1 that by (auto simp: nullish_def)
  have 3: "\<exists>q. parsePack rawPack room' = Inr (Some q) \<and> images q = []"
    if c: "\<not> nullish (content rawPack)"
      and i: "own_prop (content rawPack) ''images'' = JObj [] \<or>
        own_prop (content rawPack) ''images'' = JNum n \<or>
        own_prop (content rawPack) ''images'' = JBool b \<or>
        own_prop (content rawPack) ''images'' = JStr s"
  proof -
    let ?chars = "indexed (map (\<lambda>c. JStr [c]) s)"
    have chars: "\<not> nullish (snd e) \<and> \<not> hasUrl e" if "e \<in> set ?chars" for e
      using snd_indexed [OF that] by (auto simp: nullish_def hasUrl_def)
    from i consider "object_entries (own_prop (content rawPack) ''images'') = Inr []"
      | "object_entries (own_prop (content rawPack) ''images'') = Inr ?chars"
      by auto
    then show ?thesis
    proof cases
      case 1
      from parsePack_no_entry_with_url [OF c 1] show ?thesis by simp
    next
      case 2
      from parsePack_no_entry_with_url [OF c 2] chars show ?thesis by blast
    qed
  qed
  from 1 2 3 show ?thesis
    by blast
qed

text \<open>
  Claim C9. \<open>getUserImagePack\<close> returns \<open>null\<close> when the account data
  \<open>im.ponies.user_emotes\<close> is absent; when it is present and parses to a pack with no display
  name, the pack is returned with the display name \<open>Your Emoji\<close>.
\<close>

theorem getUserImagePack_absent_or_unnamed:
  "(getAccountData mx ''im.ponies.user_emotes'' = None \<longrightarrow> getUserImagePack mx = Inr None) \<and>
   (getAccountData mx ''im.ponies.user_emotes'' = Some ev \<and>
    parsePack ev (None :: room_core option) = Inr (Some p) \<and> nullish (displayName p) \<longrightarrow>
      getUserImagePack mx = Inr (Some (p\<lparr>displayName := JStr ''Your Emoji''\<rparr>)))"
  by (simp add: getUserImagePack_def coalesce_def)


subsection \<open>indexOf\<close>

lemma indexOf_from_notin: "x \<notin> set xs \<Longrightarrow> indexOf_from xs x i = -1"
  by (induction xs arbitrary: i) auto

lemma indexOf_from_bounds:
  "x \<in> set xs \<Longrightarrow> int i \<le> indexOf_from xs x i \<and> indexOf_from xs x i < int (i + length xs)"
proof (induction xs arbitrary: i)
  case Nil
  then show ?case by simp
next
  case (Cons y ys)
  show ?case
  proof (cases "y = x")
    case True
    then show ?thesis by simp
  next
    case False
    with Cons.prems have "x \<in> set ys" by simp
    from Cons.IH [OF this, of "Suc i"] False show ?thesis by simp
  qed
qed

lemma indexOf_from_append_in:
  "x \<in> set xs \<Longrightarrow> indexOf_from (xs @ ys) x i = indexOf_from xs x i"
  by (induction xs arbitrary: i) auto

lemma indexOf_from_append_notin:
  "x \<notin> set xs \<Longrightarrow> indexOf_from (xs @ ys) x i = indexOf_from ys x (i + length xs)"
  by (induction xs arbitrary: i) auto

lemma indexOf_ne_minus1: "indexOf xs x \<noteq> -1 \<longleftrightarrow> x \<in> set xs"
proof
  assume "indexOf xs x \<noteq> -1"
  then show "x \<in> set xs"
    using indexOf_from_notin [of x xs 0] by (auto simp: indexOf_def)
next
  assume "x \<in> set xs"
  from indexOf_from_bounds [OF this, of 0] show "indexOf xs x \<noteq> -1"
    by (simp add: indexOf_def)
qed

lemma indexOf_snoc_last:
  "indexOf (xs @ [x]) x = int (length xs) \<longleftrightarrow> x \<notin> set xs"
proof (cases "x \<in> set xs")
  case True
  from indexOf_from_bounds [OF True, of 0] True show ?thesis
    by (simp add: indexOf_def indexOf_from_append_in)
next
  case False
  then show ?thesis
    by (simp add: indexOf_def indexOf_from_append_notin)
qed

subsection \<open>Deduplication\<close>

lemma keepFirst_cong_seen:
  "set seen = set seen' \<Longrightarrow> keepFirst key seen xs = keepFirst key seen' xs"
proof (induction xs arbitrary: seen seen')
  case Nil
  show ?case by simp
next
  case (Cons x xs)
  have "keepFirst key (key x # seen) xs = keepFirst key (key x # seen') xs"
    by (rule Cons.IH) (simp add: Cons.prems)
  moreover have "keepFirst key seen xs = keepFirst key seen' xs"
    by (rule Cons.IH) (rule Cons.prems)
  ultimately show ?case using Cons.prems by simp
qed

lemma keepFirst_append:
  "keepFirst key seen (xs @ ys) = keepFirst key seen xs @ keepFirst key (rev (map key xs) @ seen) ys"
proof (induction xs arbitrary: seen)
  case Nil
  show ?case by simp
next
  case (Cons x xs)
  show ?case
  proof (cases "key x \<in> set seen")
    case True
    have "keepFirst key (rev (map key xs) @ seen) ys
        = keepFirst key (rev (map key (x # xs)) @ seen) ys"
      by (rule keepFirst_cong_seen) (use True in auto)
    with True Cons.IH [of seen] show ?thesis by simp
  next
    case False
    with Cons.IH [of "key x # seen"] show ?thesis by simp
  qed
qed

lemma firstOccurrences_snoc:
  "firstOccurrences key (xs @ [x]) =
     firstOccurrences key xs @ (if key x \<in> set (map key xs) then [] else [x])"
proof -
  have pre: "filter (\<lambda>(y, indx). indexOf (map key xs @ [key x]) (key y) = int indx)
               (zip xs [0..<length xs])
           = filter (\<lambda>(y, indx). indexOf (map key xs) (key y) = int indx)
               (zip xs [0..<length xs])"
  proof (rule filter_cong [OF refl])
    fix p assume "p \<in> set (zip xs [0..<length xs])"
    then have "fst p \<in> set xs"
      using set_zip_leftD [of "fst p" "snd p" xs "[0..<length xs]"] by simp
    then have "key (fst p) \<in> set (map key xs)"
      by simp
    then show "(case p of (y, indx) \<Rightarrow> indexOf (map key xs @ [key x]) (key y) = int indx)
        = (case p of (y, indx) \<Rightarrow> indexOf (map key xs) (key y) = int indx)"
      by (cases p) (simp add: indexOf_def indexOf_from_append_in)
  qed
  have last: "(indexOf (map key xs @ [key x]) (key x) = int (length xs))
      = (key x \<notin> set (map key xs))"
    using indexOf_snoc_last [of "map key xs" "key x"] by simp
  show ?thesis
    unfolding firstOccurrences_def
    by (simp add: pre last del: set_map)
qed

lemma firstOccurrences_eq_dedupFirst: "firstOccurrences key xs = dedupFirst key xs"
proof (induction xs rule: rev_induct)
  case Nil
  show ?case by (simp add: firstOccurrences_def dedupFirst_def)
next
  case (snoc x xs)
  have "keepFirst key (rev (map key xs) @ []) [x]
      = (if key x \<in> set (map key xs) then [] else [x])"
    by simp
  with snoc show ?case
    by (simp add: firstOccurrences_snoc dedupFirst_def keepFirst_append del: set_map)
qed

lemma keepFirst_keys:
  "distinct (map key (keepFirst key seen xs)) \<and>
   set (map key (keepFirst key seen xs)) = set (map key xs) - set seen"
proof (induction xs arbitrary: seen)
  case Nil
  show ?case by simp
next
  case (Cons x xs)
  from Cons.IH [of seen] Cons.IH [of "key x # seen"] show ?case
    by auto
qed

lemma distinct_dedupFirst: "distinct (map key (dedupFirst key xs))"
  by (simp add: dedupFirst_def keepFirst_keys)

lemma getRelevantPacks_eq:
  "getRelevantPacks room' =
     bindE (getUserImagePack (client room')) (\<lambda>user.
     bindE (getPacksInRoom room') (\<lambda>inRoom.
     bindE (getFromImagePackRooms (client room')) (\<lambda>fromRooms.
       Inr (dedupFirst sourceEventId
              ((case user of None \<Rightarrow> [] | Some p \<Rightarrow> [p]) @ inRoom @ fromRooms)))))"
proof -
  have fo: "firstOccurrences sourceEventId xs
      = map fst (filter (\<lambda>(pack, indx).
            indexOf (map (\<lambda>pack. event_id (event pack)) xs) (event_id (event pack)) = int indx)
          (zip xs [0..<length xs]))" for xs
    by (simp add: firstOccurrences_def sourceEventId_def [abs_def])
  show ?thesis
    unfolding getRelevantPacks_def Let_def fo [symmetric] firstOccurrences_eq_dedupFirst ..
qed

text \<open>
  Claim C3. \<open>getRelevantPacks\<close> returns the personal pack, the packs of the room and the
  enabled packs of the pack rooms, concatenated in this order and deduplicated by source
  event id with the first occurrence kept; no two packs of the result have the same source
  event id.
\<close>

theorem getRelevantPacks_dedup:
  "(getUserImagePack (client room') = Inr user \<and> getPacksInRoom room' = Inr inRoom \<and>
    getFromImagePackRooms (client room') = Inr fromRooms \<longrightarrow>
      getRelevantPacks room' =
        Inr (dedupFirst sourceEventId
               ((case user of None \<Rightarrow> [] | Some p \<Rightarrow> [p]) @ inRoom @ fromRooms))) \<and>
   (getRelevantPacks room' = Inr packs \<longrightarrow> distinct (map sourceEventId packs))"
  by (auto simp: getRelevantPacks_eq bindE_eq_Inr distinct_dedupFirst)


subsection \<open>Packs of rooms\<close>

lemma getPacksInRoom_parsedPacks:
  assumes "getPacksInRoom room' = Inr ps"
  shows "ps = parsedPacks room'"
proof -
  let ?evs = "getStateEvents room' ''im.ponies.room_emotes''"
  let ?f = "\<lambda>p. parsePack p (Some room')"
  from assms obtain packs where m: "mapE ?f ?evs = Inr packs"
    and ps: "ps = concat (map (\<lambda>p. case p of None \<Rightarrow> [] | Some q \<Rightarrow> [q]) packs)"
    by (auto simp: getPacksInRoom_def bindE_eq_Inr)
  have "(case projr (?f ev) of None \<Rightarrow> [] | Some q \<Rightarrow> [q])
      = (case ?f ev of Inr (Some p) \<Rightarrow> [p] | _ \<Rightarrow> [])" if "ev \<in> set ?evs" for ev
    using mapE_Inr_D [OF m that] by (cases "?f ev") (auto split: option.splits)
  then have "map (\<lambda>ev. case projr (?f ev) of None \<Rightarrow> [] | Some q \<Rightarrow> [q]) ?evs
      = map (\<lambda>ev. case ?f ev of Inr (Some p) \<Rightarrow> [p] | _ \<Rightarrow> []) ?evs"
    by (intro map_cong refl) 
  with mapE_Inr_projr [OF m] ps show ?thesis
    by (simp add: parsedPacks_def comp_def)
qed

lemma object_keys_JObj [simp]: "object_keys (JObj ks) = Inr (map fst ks)"
  by (simp add: object_keys_def)

lemma indexOf_Some_keys:
  "(indexOf (map Some keys) sk \<noteq> -1) = (case sk of None \<Rightarrow> False | Some k \<Rightarrow> k \<in> set keys)"
  by (auto simp: indexOf_ne_minus1 split: option.splits)

lemma packsOfEmoteRoom_enabled:
  assumes "\<forall>room'. getRoom mx (fst e) = Some room' \<longrightarrow> getPacksInRoom room' \<noteq> Inl TypeError"
  shows "packsOfEmoteRoom mx (fst e, JObj (snd e)) = Inr (enabledPacks mx e)"
proof (cases "getRoom mx (fst e)")
  case None
  then show ?thesis
    by (simp add: packsOfEmoteRoom_def enabledPacks_def)
next
  case (Some room')
  with assms obtain ps where ps: "getPacksInRoom room' = Inr ps"
    by (cases "getPacksInRoom room'") (auto, metis error.exhaust)
  have "(indexOf (map Some (map fst (snd e))) sk \<noteq> -1)
      = (case sk of None \<Rightarrow> False | Some k \<Rightarrow> k \<in> set (map fst (snd e)))" for sk
    by (rule indexOf_Some_keys)
  with getPacksInRoom_parsedPacks [OF ps] ps Some show ?thesis
    by (simp add: packsOfEmoteRoom_def enabledPacks_def del: set_map map_map)
qed

text \<open>
  Claim C8. When the account data \<open>im.ponies.emote_rooms\<close> references rooms with enabled
  state keys, \<open>getFromImagePackRooms\<close> returns, room by room, the parsed packs of each
  referenced room the client has loaded whose state key is enabled; a referenced room the
  client has not loaded contributes nothing and raises nothing.
\<close>

theorem getFromImagePackRooms_enabled:
  assumes "getAccountData mx ''im.ponies.emote_rooms'' = Some ev"
    and "\<not> nullish (content ev)"
    and "own_prop (content ev) ''rooms'' = JObj (map (\<lambda>e. (fst e, JObj (snd e))) rs)"
    and "\<forall>e\<in>set rs. \<forall>room'. getRoom mx (fst e) = Some room' \<longrightarrow>
           getPacksInRoom room' \<noteq> Inl TypeError"
  shows "getFromImagePackRooms mx = Inr (concat (map (enabledPacks mx) rs))"
proof -
  have "packsOfEmoteRoom mx (fst e, JObj (snd e)) = Inr (enabledPacks mx e)" if "e \<in> set rs" for e
    using packsOfEmoteRoom_enabled [of mx e] assms(4) that by simp
  then have "mapE (\<lambda>e. packsOfEmoteRoom mx (fst e, JObj (snd e))) rs = Inr (map (enabledPacks mx) rs)"
    by (intro mapE_total) simp
  moreover have "mapE f (map g xs) = mapE (\<lambda>x. f (g x)) xs" for f :: "string \<times> json \<Rightarrow> error + ImagePack list" and g :: "string \<times> (string \<times> json) list \<Rightarrow> string \<times> json" and xs
    by (induction xs) auto
  ultimately have "flatMapE (packsOfEmoteRoom mx) (map (\<lambda>e. (fst e, JObj (snd e))) rs)
      = Inr (concat (map (enabledPacks mx) rs))"
    by (simp add: flatMapE_def)
  with assms(1-3) show ?thesis
    by (simp add: getFromImagePackRooms_def get_prop_def Let_def coalesce_def nullish_def)
qed

subsection \<open>Maps\<close>

lemma map_of_Map_set: "map_of (Map_set m k v) = (map_of m)(k \<mapsto> v)"
  by (induction m k v rule: Map_set.induct) (auto simp: fun_eq_iff)

lemma keys_Map_set: "set (map fst (Map_set m k v)) = insert k (set (map fst m))"
  by (induction m k v rule: Map_set.induct) auto

lemma distinct_Map_set: "distinct (map fst m) \<Longrightarrow> distinct (map fst (Map_set m k v))"
  by (induction m k v rule: Map_set.induct) (auto simp: keys_Map_set simp flip: set_map)

lemma values_Map_set: "set (map snd (Map_set m k v)) \<subseteq> insert v (set (map snd m))"
  by (induction m k v rule: Map_set.induct) auto

lemma setCustom_simps [simp]:
  "setCustom m [] = m"
  "setCustom m (e # es) = setCustom (Map_set m (shortcode e) (Custom e)) es"
  by (simp_all add: setCustom_def)

lemma setCustom_snoc: "setCustom m (es @ [e]) = Map_set (setCustom m es) (shortcode e) (Custom e)"
  by (simp add: setCustom_def)

lemma keys_setCustom: "set (map fst (setCustom m es)) = set (map fst m) \<union> set (map shortcode es)"
  by (induction es arbitrary: m) (auto simp: keys_Map_set simp del: set_map)

lemma distinct_setCustom: "distinct (map fst m) \<Longrightarrow> distinct (map fst (setCustom m es))"
  by (induction es arbitrary: m) (auto simp: distinct_Map_set)

lemma values_setCustom: "set (map snd (setCustom m es)) \<subseteq> set (map snd m) \<union> Custom ` set es"
proof (induction es arbitrary: m)
  case Nil
  show ?case by simp
next
  case (Cons e es)
  from Cons.IH [of "Map_set m (shortcode e) (Custom e)"] values_Map_set [of m "shortcode e" "Custom e"]
  show ?case by auto
qed

lemma map_of_setCustom:
  "map_of (setCustom m es) x =
     (case map_of (map (\<lambda>e. (shortcode e, Custom e)) (rev es)) x of
        Some v \<Rightarrow> Some v
      | None \<Rightarrow> map_of m x)"
proof (induction es rule: rev_induct)
  case Nil
  show ?case by simp
next
  case (snoc e es)
  then show ?case
    by (simp add: setCustom_snoc map_of_Map_set)
qed

lemma shortcodes_setCustom_empty:
  "map emoji_shortcode (map snd (setCustom [] es)) = map fst (setCustom [] es)"
proof -
  have inv: "\<forall>p\<in>set (Map_set m k (Custom e)). emoji_shortcode (snd p) = fst p"
    if "\<forall>p\<in>set m. emoji_shortcode (snd p) = fst p" "shortcode e = k" for m k e
    using that by (induction m k "Custom e" rule: Map_set.induct) auto
  have "\<forall>p\<in>set (setCustom m es). emoji_shortcode (snd p) = fst p"
    if "\<forall>p\<in>set m. emoji_shortcode (snd p) = fst p" for m
    using that
  proof (induction es arbitrary: m)
    case Nil
    then show ?case by simp
  next
    case (Cons e es)
    show ?case
      unfolding setCustom_simps
      by (rule Cons.IH) (rule inv [OF Cons.prems refl])
  qed
  from this [of "[]"] show ?thesis by simp
qed

lemma all_Custom_map:
  "(\<forall>v\<in>set vs. \<exists>c. c \<in> S \<and> v = Custom c) \<Longrightarrow> \<exists>cs. vs = map Custom cs \<and> set cs \<subseteq> S"
proof (induction vs)
  case Nil
  show ?case by simp
next
  case (Cons v vs)
  then obtain cs c where "vs = map Custom cs" "set cs \<subseteq> S" "c \<in> S" "v = Custom c"
    by auto
  then have "v # vs = map Custom (c # cs) \<and> set (c # cs) \<subseteq> S"
    by simp
  then show ?case by (rule exI)
qed

lemma customs_of_setCustom_empty:
  "\<exists>cs. map snd (setCustom [] es) = map Custom cs \<and> set cs \<subseteq> set es"
proof -
  have "set (map snd (setCustom [] es)) \<subseteq> Custom ` set es"
    using values_setCustom [of "[]" es] by simp
  then have "\<forall>v\<in>set (map snd (setCustom [] es)). \<exists>c. c \<in> set es \<and> v = Custom c"
    by auto
  then show ?thesis
    by (rule all_Custom_map)
qed


subsection \<open>The emoji of packs\<close>

lemma getEmojis_Inr: "getEmojis p = Inr es \<Longrightarrow> es = filter isEmoticon (images p)"
  unfolding getEmojis_def isEmoticon_def by (rule filterE_Inr)

lemma flatMapE_getEmojis:
  assumes "flatMapE getEmojis ps = Inr es"
  shows "es = concat (map (\<lambda>p. filter isEmoticon (images p)) ps)"
    and "\<forall>p\<in>set ps. getEmojis p = Inr (filter isEmoticon (images p))"
proof -
  from assms obtain ess where m: "mapE getEmojis ps = Inr ess" and es: "es = concat ess"
    by (auto simp: flatMapE_def bindE_eq_Inr)
  have p: "getEmojis p = Inr (filter isEmoticon (images p))" if "p \<in> set ps" for p
    using mapE_Inr_D [OF m that] getEmojis_Inr [of p "projr (getEmojis p)"] by simp
  then show "\<forall>p\<in>set ps. getEmojis p = Inr (filter isEmoticon (images p))" by blast
  from p have "map (\<lambda>p. projr (getEmojis p)) ps = map (\<lambda>p. filter isEmoticon (images p)) ps"
    by (intro map_cong refl) simp
  with mapE_Inr_projr [OF m] es show "es = concat (map (\<lambda>p. filter isEmoticon (images p)) ps)"
    by simp
qed

lemma getShortcodeToEmoji_eq:
  "getShortcodeToEmoji emojis room' =
     bindE (customEmojis room') (\<lambda>es. Inr (setCustom (foldl setStandard [] emojis) es))"
  by (cases "getRelevantPacks room'")
     (simp_all add: getShortcodeToEmoji_def customEmojis_def setCustom_def Let_def)

lemma getEmojiForCompletion_eq:
  "getEmojiForCompletion emojis room' =
     bindE (customEmojis room') (\<lambda>es.
       Inr (map Standard (filter (\<lambda>e. \<not> Map_has (setCustom [] es) (std_shortcode e)) emojis)
            @ Map_values (setCustom [] es)))"
  by (cases "getRelevantPacks room'")
     (simp_all add: getEmojiForCompletion_def customEmojis_def setCustom_def Let_def)

lemma customEmojis_isEmoticon:
  assumes "customEmojis room' = Inr es" and "i \<in> set es"
  shows "isEmoticon i"
proof -
  from assms(1) obtain packs where "flatMapE getEmojis (rev packs) = Inr es"
    by (auto simp: customEmojis_def bindE_eq_Inr)
  from flatMapE_getEmojis(1) [OF this] assms(2) show ?thesis by auto
qed

lemma values_setStandard:
  "set (map snd (setStandard m e)) \<subseteq> insert (Standard e) (set (map snd m))"
proof (cases "std_shortcodes e")
  case (Single sc)
  then show ?thesis
    using values_Map_set [of m sc "Standard e"] by (simp add: setStandard_def)
next
  case (Array ss)
  have "set (map snd (foldl (\<lambda>m sc. Map_set m sc (Standard e)) m ss))
      \<subseteq> insert (Standard e) (set (map snd m))"
  proof (induction ss arbitrary: m)
    case Nil
    show ?case by auto
  next
    case (Cons s ss)
    from Cons.IH [of "Map_set m s (Standard e)"] values_Map_set [of m s "Standard e"]
    show ?case by auto
  qed
  with Array show ?thesis by (simp add: setStandard_def)
qed

lemma values_foldl_setStandard:
  "set (map snd (foldl setStandard m emojis)) \<subseteq> set (map snd m) \<union> Standard ` set emojis"
proof (induction emojis arbitrary: m)
  case Nil
  show ?case by simp
next
  case (Cons e emojis)
  from Cons.IH [of "setStandard m e"] values_setStandard [of m e]
  show ?case by auto
qed

text \<open>
  Claim C10. An image whose usage does not include \<open>emoticon\<close> is no value of the map of
  \<open>getShortcodeToEmoji\<close> and no element of the list of \<open>getEmojiForCompletion\<close>, whatever
  pack holds it.
\<close>

theorem non_emoticon_excluded:
  assumes "\<not> isEmoticon i"
  shows "(getShortcodeToEmoji emojis room' = Inr m \<longrightarrow> Custom i \<notin> set (Map_values m)) \<and>
         (getEmojiForCompletion emojis room' = Inr r \<longrightarrow> Custom i \<notin> set r)"
proof (intro conjI impI)
  assume "getShortcodeToEmoji emojis room' = Inr m"
  then obtain es where es: "customEmojis room' = Inr es"
    and m: "m = setCustom (foldl setStandard [] emojis) es"
    by (auto simp: getShortcodeToEmoji_eq bindE_eq_Inr)
  have "set (Map_values m) \<subseteq> Standard ` set emojis \<union> Custom ` set es"
    using values_setCustom [of "foldl setStandard [] emojis" es]
      values_foldl_setStandard [of "[]" emojis]
    by (auto simp: m Map_values_def)
  moreover have "i \<notin> set es"
    using customEmojis_isEmoticon [OF es] assms by blast
  ultimately show "Custom i \<notin> set (Map_values m)" by auto
next
  assume "getEmojiForCompletion emojis room' = Inr r"
  then obtain es where es: "customEmojis room' = Inr es"
    and r: "r = map Standard (filter (\<lambda>e. \<not> Map_has (setCustom [] es) (std_shortcode e)) emojis)
            @ Map_values (setCustom [] es)"
    by (auto simp: getEmojiForCompletion_eq bindE_eq_Inr)
  have "set (Map_values (setCustom [] es)) \<subseteq> Custom ` set es"
    using values_setCustom [of "[]" es] by (simp add: Map_values_def)
  moreover have "i \<notin> set es"
    using customEmojis_isEmoticon [OF es] assms by blast
  ultimately show "Custom i \<notin> set r" by (auto simp: r)
qed

subsection \<open>Completion\<close>

text \<open>
  Claim C2. The list of \<open>getEmojiForCompletion\<close> has as many elements as there are
  standard emoji that no custom emoji shadows plus distinct custom shortcodes; it is the
  unshadowed standard emoji, in the order of the table, followed by custom emoji; its
  shortcodes are those of the standard and of the custom emoji, and each occurs once when
  the primary shortcodes of the table of standard emoji are distinct.
\<close>

theorem getEmojiForCompletion_shape:
  assumes "getEmojiForCompletion emojis room' = Inr r"
  shows "\<exists>customs. customEmojis room' = Inr customs \<and>
     length r = (length emojis
                 - length (filter (\<lambda>e. std_shortcode e \<in> set (map shortcode customs)) emojis))
                + length (remdups (map shortcode customs)) \<and>
     (\<exists>cs. set cs \<subseteq> set customs \<and>
        r = map Standard (filter (\<lambda>e. std_shortcode e \<notin> set (map shortcode customs)) emojis)
            @ map Custom cs) \<and>
     set (map emoji_shortcode r) = set (map std_shortcode emojis) \<union> set (map shortcode customs) \<and>
     (distinct (map std_shortcode emojis) \<longrightarrow> distinct (map emoji_shortcode r))"
proof -
  from assms obtain es where es: "customEmojis room' = Inr es"
    and r0: "r = map Standard (filter (\<lambda>e. \<not> Map_has (setCustom [] es) (std_shortcode e)) emojis)
            @ Map_values (setCustom [] es)"
    by (auto simp: getEmojiForCompletion_eq bindE_eq_Inr)
  let ?S = "set (map shortcode es)"
  let ?m = "setCustom [] es"
  let ?ss = "filter (\<lambda>e. std_shortcode e \<notin> ?S) emojis"
  have keys: "set (map fst ?m) = ?S"
    using keys_setCustom [of "[]" es] by simp
  have dist: "distinct (map fst ?m)"
    by (rule distinct_setCustom) simp
  have has: "Map_has ?m k = (k \<in> ?S)" for k
    unfolding Map_has_def keys ..
  have r: "r = map Standard ?ss @ map snd ?m"
    unfolding r0 has Map_values_def ..
  have "length (map fst ?m) = card ?S"
    using distinct_card [OF dist] keys by simp
  then have len_m: "length ?m = length (remdups (map shortcode es))"
    by (simp add: length_remdups_card_conv)
  have "length (filter (\<lambda>e. std_shortcode e \<in> ?S) emojis) + length ?ss = length emojis"
    by (rule sum_length_filter_compl)
  then have len_ss: "length ?ss = length emojis - length (filter (\<lambda>e. std_shortcode e \<in> ?S) emojis)"
    by simp
  have 1: "length r = (length emojis - length (filter (\<lambda>e. std_shortcode e \<in> ?S) emojis))
      + length (remdups (map shortcode es))"
    using len_ss len_m by (simp add: r)
  from customs_of_setCustom_empty [of es] obtain cs
    where cs: "map snd ?m = map Custom cs" "set cs \<subseteq> set es" by blast
  have 2: "\<exists>cs. set cs \<subseteq> set es \<and> r = map Standard ?ss @ map Custom cs"
    using cs r by auto
  have sc: "map emoji_shortcode r = map std_shortcode ?ss @ map fst ?m"
    by (simp add: r shortcodes_setCustom_empty [symmetric] comp_def)
  have 3: "set (map emoji_shortcode r) = set (map std_shortcode emojis) \<union> ?S"
    unfolding sc set_append keys by auto
  have 4: "distinct (map emoji_shortcode r)" if "distinct (map std_shortcode emojis)"
  proof -
    have "distinct (map std_shortcode ?ss)"
      using that by (rule distinct_map_filter)
    moreover have "set (map std_shortcode ?ss) \<inter> set (map fst ?m) = {}"
      unfolding keys by auto
    ultimately show ?thesis
      unfolding sc using dist by simp
  qed
  from es 1 2 3 4 show ?thesis by blast
qed

subsection \<open>Priority\<close>

lemma map_of_first:
  "filter (\<lambda>i. shortcode i = x) ys = e # rest \<Longrightarrow>
   map_of (map (\<lambda>i. (shortcode i, Custom i)) ys) x = Some (Custom e)"
  by (induction ys) (auto split: if_splits)

lemma map_of_none:
  "x \<notin> set (map shortcode ys) \<Longrightarrow> map_of (map (\<lambda>i. (shortcode i, Custom i)) ys) x = None"
  by (induction ys) auto

lemma first_defining_pack_wins:
  assumes m: "getShortcodeToEmoji emojis room' = Inr m"
    and packs: "getRelevantPacks room' = Inr (higher @ pack # lower)"
    and higher: "\<forall>q\<in>set higher. \<not> hasShortcode q x"
    and def: "definesEmoji pack x e"
  shows "Map_get m x = Some (Custom e)"
proof -
  let ?em = "\<lambda>p. filter isEmoticon (images p)"
  let ?kv = "\<lambda>i. (shortcode i, Custom i)"
  from m packs obtain es where es: "flatMapE getEmojis (rev (higher @ pack # lower)) = Inr es"
    and m': "m = setCustom (foldl setStandard [] emojis) es"
    by (auto simp: getShortcodeToEmoji_eq customEmojis_def bindE_eq_Inr)
  from flatMapE_getEmojis(1) [OF es]
  have "rev es = concat (map (\<lambda>p. rev (?em p)) (higher @ pack # lower))"
    by (simp add: rev_concat rev_map comp_def)
  then have rev_es: "rev es = concat (map (\<lambda>p. rev (?em p)) higher) @ rev (?em pack)
      @ concat (map (\<lambda>p. rev (?em p)) lower)"
    by simp
  have "x \<notin> set (map shortcode (concat (map (\<lambda>p. rev (?em p)) higher)))"
    using higher by (auto simp: hasShortcode_def)
  then have h: "map_of (map ?kv (concat (map (\<lambda>p. rev (?em p)) higher))) x = None"
    by (rule map_of_none)
  from flatMapE_getEmojis(2) [OF es] have "getEmojis pack = Inr (?em pack)"
    by simp
  with def have "filter (\<lambda>i. shortcode i = x) (?em pack) = [e]"
    by (simp add: definesEmoji_def)
  then have "filter (\<lambda>i. shortcode i = x) (rev (?em pack)) = [e]"
    by (simp add: rev_filter [symmetric])
  then have p: "map_of (map ?kv (rev (?em pack))) x = Some (Custom e)"
    by (rule map_of_first)
  have "map_of (map ?kv (rev es)) x = Some (Custom e)"
    unfolding rev_es map_append map_of_append by (simp add: map_add_def h p)
  then show ?thesis
    by (simp add: Map_get_def m' map_of_setCustom)
qed

lemma getRelevantPacks_personal_first:
  assumes "getRelevantPacks room' = Inr packs"
    and "getUserImagePack (client room') = Inr (Some P)"
  shows "\<exists>lower. packs = [] @ P # lower"
  using assms by (auto simp: getRelevantPacks_eq bindE_eq_Inr dedupFirst_def)

lemma map_of_shortcode_filter:
  "map_of (map (\<lambda>i. (shortcode i, Custom i)) zs) x =
     (case filter (\<lambda>i. shortcode i = x) zs of [] \<Rightarrow> None | e # es \<Rightarrow> Some (Custom e))"
  by (induction zs) auto

lemma map_of_shortcode_rev:
  "map_of (map (\<lambda>i. (shortcode i, Custom i)) (rev ys)) x =
     (case filter (\<lambda>i. shortcode i = x) ys of
        [] \<Rightarrow> None
      | e # es \<Rightarrow> Some (Custom (last (e # es))))"
proof (cases "filter (\<lambda>i. shortcode i = x) ys")
  case Nil
  then have "filter (\<lambda>i. shortcode i = x) (rev ys) = []"
    by (simp add: rev_filter [symmetric])
  with Nil show ?thesis
    by (simp add: map_of_shortcode_filter)
next
  case (Cons e es)
  then have "filter (\<lambda>i. shortcode i = x) (rev ys) = last (e # es) # rev (butlast (e # es))"
    by (metis append_butlast_last_id list.distinct(1) rev.simps(2) rev_filter rev_rev_ident rev_swap)
  with Cons show ?thesis
    by (simp add: map_of_shortcode_filter)
qed

lemma map_of_priorityDefinition:
  "map_of (map (\<lambda>i. (shortcode i, Custom i))
             (concat (map (\<lambda>p. rev (filter isEmoticon (images p))) packs))) x
     = map_option Custom (priorityDefinition packs x)"
proof (induction packs)
  case Nil
  show ?case by simp
next
  case (Cons p ps)
  show ?case
  proof (cases "filter (\<lambda>i. shortcode i = x) (filter isEmoticon (images p))")
    case Nil
    with Cons.IH show ?thesis
      using map_of_shortcode_rev [of "filter isEmoticon (images p)" x]
      by (simp add: map_add_def del: filter_filter)
  next
    case (Cons e es)
    then show ?thesis
      using map_of_shortcode_rev [of "filter isEmoticon (images p)" x]
      by (simp add: map_add_def del: filter_filter)
  qed
qed

lemma getShortcodeToEmoji_priorityDefinition:
  assumes m: "getShortcodeToEmoji emojis room' = Inr m"
    and packs: "getRelevantPacks room' = Inr packs"
  shows "Map_get m x =
     (case priorityDefinition packs x of
        Some e \<Rightarrow> Some (Custom e)
      | None \<Rightarrow> Map_get (foldl setStandard [] emojis) x)"
proof -
  from m packs obtain es where es: "flatMapE getEmojis (rev packs) = Inr es"
    and m': "m = setCustom (foldl setStandard [] emojis) es"
    by (auto simp: getShortcodeToEmoji_eq customEmojis_def bindE_eq_Inr)
  from flatMapE_getEmojis(1) [OF es]
  have "rev es = concat (map (\<lambda>p. rev (filter isEmoticon (images p))) packs)"
    by (simp add: rev_concat rev_map comp_def)
  then have "map_of (map (\<lambda>i. (shortcode i, Custom i)) (rev es)) x
      = map_option Custom (priorityDefinition packs x)"
    by (simp only: map_of_priorityDefinition)
  then show ?thesis
    by (cases "priorityDefinition packs x") (simp_all add: Map_get_def m' map_of_setCustom)
qed

text \<open>
  Claim C1. The map of \<open>getShortcodeToEmoji\<close> holds at every shortcode the definition that
  has priority among the relevant packs, the pack of highest priority first, and the
  standard emoji only where no pack defines the shortcode. So a pack's definition wins over
  every pack after it when no pack before it has the shortcode; and in a room where the
  personal pack \<open>P\<close>, a pack of the room and an enabled external pack all define \<open>x\<close>, the
  map holds the definition of \<open>P\<close>.
\<close>

theorem getShortcodeToEmoji_priority:
  assumes "getShortcodeToEmoji emojis room' = Inr m"
  shows "\<exists>packs. getRelevantPacks room' = Inr packs \<and>
     Map_get m x =
       (case priorityDefinition packs x of
          Some e \<Rightarrow> Some (Custom e)
        | None \<Rightarrow> Map_get (foldl setStandard [] emojis) x) \<and>
     (\<forall>higher pack lower e.
        packs = higher @ pack # lower \<and> (\<forall>q\<in>set higher. \<not> hasShortcode q x) \<and>
        definesEmoji pack x e \<longrightarrow> Map_get m x = Some (Custom e)) \<and>
     (\<forall>P eP. getUserImagePack (client room') = Inr (Some P) \<and> definesEmoji P x eP \<longrightarrow>
        Map_get m x = Some (Custom eP))"
proof -
  from assms obtain packs where packs: "getRelevantPacks room' = Inr packs"
    by (auto simp: getShortcodeToEmoji_eq customEmojis_def bindE_eq_Inr)
  have 1: "Map_get m x =
       (case priorityDefinition packs x of
          Some e \<Rightarrow> Some (Custom e)
        | None \<Rightarrow> Map_get (foldl setStandard [] emojis) x)"
    by (rule getShortcodeToEmoji_priorityDefinition [OF assms packs])
  have 2: "Map_get m x = Some (Custom e)"
    if "packs = higher @ pack # lower \<and> (\<forall>q\<in>set higher. \<not> hasShortcode q x) \<and>
        definesEmoji pack x e" for higher pack lower e
    using first_defining_pack_wins [OF assms, of higher pack lower x e] packs that by simp
  have 3: "Map_get m x = Some (Custom eP)"
    if "getUserImagePack (client room') = Inr (Some P) \<and> definesEmoji P x eP" for P eP
  proof -
    from getRelevantPacks_personal_first [OF packs, of P] that obtain lower
      where "packs = [] @ P # lower" by blast
    with 2 [of "[]" P lower eP] that show ?thesis by simp
  qed
  from packs 1 2 3 show ?thesis by blast
qed


subsection \<open>The example session\<close>

lemmas sample_defs = userEmotes_def roomEmotes_def pack1Event_def pack2Event_def emoteRooms_def
  packRoom_def chatRoom_def sampleClient_def sampleRoom_def sampleEmojis_def grinning_def zzz_def
  emoticonImage_def personalPack_def stickerImage_def roomPack_def zedImage_def pack1_def
  pack2_def sampleMap_def sampleCompletion_def enabledRooms_def

lemmas eval_defs = nullish_def coalesce_def get_prop_def object_keys_def indexOf_def
  str_indexOf_def flatMapE_def default_usage_def parseImage_def parsePack_def Let_def

lemma sample_parse_user:
  "parsePack userEmotes (None :: room_core option)
     = Inr (Some (personalPack\<lparr>displayName := JUndefined\<rparr>))"
  by (simp add: sample_defs eval_defs)

lemma sample_parse_room: "parsePack roomEmotes (Some sampleRoom) = Inr (Some roomPack)"
  by (simp add: sample_defs eval_defs)

lemma sample_personal: "getUserImagePack sampleClient = Inr (Some personalPack)"
  by (simp add: getUserImagePack_def sample_defs eval_defs)

lemma sample_inRoom: "getPacksInRoom sampleRoom = Inr [roomPack]"
  by (simp add: getPacksInRoom_def sample_defs eval_defs)

lemma sample_chatRoom: "getPacksInRoom chatRoom = Inr [roomPack]"
  by (simp add: getPacksInRoom_def sample_defs eval_defs)

lemma sample_packRoom: "getPacksInRoom packRoom = Inr [pack1, pack2]"
  by (simp add: getPacksInRoom_def sample_defs eval_defs)

lemma sample_fromRooms: "getFromImagePackRooms sampleClient = Inr [pack1, roomPack]"
proof -
  have "state_key (event pack1) = Some ''pack1''" "state_key (event pack2) = Some ''pack2''"
    "state_key (event roomPack) = Some []"
    by (simp_all add: sample_defs)
  then show ?thesis
    using sample_packRoom sample_chatRoom
    by (simp add: getFromImagePackRooms_def packsOfEmoteRoom_def sampleClient_def emoteRooms_def
        eval_defs)
qed

lemma sample_client [simp]: "client sampleRoom = sampleClient"
  by (simp add: sampleRoom_def)

lemma sample_event_ids:
  "sourceEventId personalPack = None" "sourceEventId roomPack = Some ''$c''"
  "sourceEventId pack1 = Some ''$1''"
  by (simp_all add: sourceEventId_def sample_defs)

lemma sample_relevant: "getRelevantPacks sampleRoom = Inr [personalPack, roomPack, pack1]"
  using sample_personal sample_inRoom sample_fromRooms
  by (simp add: getRelevantPacks_eq dedupFirst_def sample_event_ids)

lemma sample_isEmoticon:
  "isEmoticon (emoticonImage sc url)" "isEmoticon zedImage" "\<not> isEmoticon stickerImage"
  by (simp_all add: isEmoticon_def emoticonImage_def zedImage_def stickerImage_def
      default_usage_def indexOf_def)

lemma sample_getEmojis:
  "getEmojis personalPack = Inr [emoticonImage ''x'' ''mxc://u/x'']"
  "getEmojis roomPack = Inr [emoticonImage ''x'' ''mxc://c/x'']"
  "getEmojis pack1 = Inr [emoticonImage ''x'' ''mxc://r/x'', zedImage]"
  by (simp_all add: getEmojis_def personalPack_def roomPack_def pack1_def emoticonImage_def
      zedImage_def stickerImage_def default_usage_def indexOf_def)

lemma sample_customEmojis:
  "customEmojis sampleRoom =
     Inr [emoticonImage ''x'' ''mxc://r/x'', zedImage, emoticonImage ''x'' ''mxc://c/x'',
          emoticonImage ''x'' ''mxc://u/x'']"
  by (simp add: customEmojis_def sample_relevant flatMapE_def sample_getEmojis)

lemma sample_shortcodes [simp]:
  "shortcode (emoticonImage sc url) = sc" "shortcode zedImage = ''z''"
  "shortcode stickerImage = ''stick''"
  by (simp_all add: emoticonImage_def zedImage_def stickerImage_def)

lemma sample_getShortcodeToEmoji: "getShortcodeToEmoji sampleEmojis sampleRoom = Inr sampleMap"
  by (simp add: getShortcodeToEmoji_eq sample_customEmojis sampleEmojis_def setStandard_def
      grinning_def zzz_def sampleMap_def)

lemma sample_getEmojiForCompletion:
  "getEmojiForCompletion sampleEmojis sampleRoom = Inr sampleCompletion"
  by (simp add: getEmojiForCompletion_eq sample_customEmojis sampleEmojis_def Map_has_def
      Map_values_def grinning_def zzz_def sampleCompletion_def)



lemma other_personal: "getUserImagePack otherClient = Inr (Some otherPersonal)"
  by (simp add: getUserImagePack_def otherClient_def userEmotesNoX_def otherPersonal_def
      emoticonImage_def eval_defs)

lemma other_inRoom: "getPacksInRoom otherRoom = Inr [roomPack]"
  by (simp add: getPacksInRoom_def otherRoom_def sample_defs eval_defs)

lemma other_fromRooms: "getFromImagePackRooms otherClient = Inr [pack1, roomPack]"
proof -
  have "state_key (event pack1) = Some ''pack1''" "state_key (event pack2) = Some ''pack2''"
    "state_key (event roomPack) = Some []"
    by (simp_all add: sample_defs)
  then show ?thesis
    using sample_packRoom sample_chatRoom
    by (simp add: getFromImagePackRooms_def packsOfEmoteRoom_def otherClient_def emoteRooms_def
        eval_defs)
qed

lemma other_relevant: "getRelevantPacks otherRoom = Inr [otherPersonal, roomPack, pack1]"
proof -
  have "client otherRoom = otherClient"
    by (simp add: otherRoom_def)
  moreover have "sourceEventId otherPersonal = None"
    by (simp add: sourceEventId_def otherPersonal_def userEmotesNoX_def)
  ultimately show ?thesis
    using other_personal other_inRoom other_fromRooms
    by (simp add: getRelevantPacks_eq dedupFirst_def sample_event_ids)
qed

lemma other_getEmojis: "getEmojis otherPersonal = Inr [emoticonImage ''u'' ''mxc://u/u'']"
  by (simp add: getEmojis_def otherPersonal_def emoticonImage_def default_usage_def indexOf_def)

lemma other_getShortcodeToEmoji: "getShortcodeToEmoji sampleEmojis otherRoom = Inr otherMap"
  by (simp add: getShortcodeToEmoji_eq customEmojis_def other_relevant flatMapE_def
      sample_getEmojis other_getEmojis sampleEmojis_def setStandard_def grinning_def zzz_def
      otherMap_def)

subsection \<open>The claims on the example session\<close>

theorem parsePack_empty_images_counterexample:
  "own_prop (content \<lparr>content = JObj [(''images'', JObj [])], state_key = Some ''empty'',
                      event_id = Some ''$0''\<rparr>) ''images'' = JObj [] \<and>
   parsePack \<lparr>content = JObj [(''images'', JObj [])], state_key = Some ''empty'',
              event_id = Some ''$0''\<rparr> (None :: room_core option)
     = Inr (Some \<lparr>displayName = JUndefined, avatar = JUndefined,
                  usage = JArr [JStr ''emoticon'', JStr ''sticker''], attribution = JUndefined,
                  images = [],
                  event = \<lparr>content = JObj [(''images'', JObj [])], state_key = Some ''empty'',
                            event_id = Some ''$0''\<rparr>\<rparr>)"
  by (simp add: eval_defs)

theorem parsePack_declared_images_witness:
  "(parsePack roomEmotes (Some sampleRoom) = Inr (Some roomPack) \<and>
    \<not> nullish (content roomEmotes) \<and> \<not> nullish (own_prop (content roomEmotes) ''images'')) \<and>
   (own_prop (content emoteRooms) ''images'' = JUndefined \<and>
    parsePack emoteRooms (Some sampleRoom) \<noteq> Inr (Some roomPack)) \<and>
   (\<not> nullish (content (roomEmotes\<lparr>content := JObj [(''images'', JObj [])]\<rparr>)) \<and>
    own_prop (content (roomEmotes\<lparr>content := JObj [(''images'', JObj [])]\<rparr>)) ''images''
      = JObj [] \<and>
    (\<exists>q. parsePack (roomEmotes\<lparr>content := JObj [(''images'', JObj [])]\<rparr>) (Some sampleRoom)
            = Inr (Some q) \<and> images q = [])) \<and>
   (\<not> nullish (content (roomEmotes\<lparr>content := JObj [(''images'', JStr ''ab'')]\<rparr>)) \<and>
    own_prop (content (roomEmotes\<lparr>content := JObj [(''images'', JStr ''ab'')]\<rparr>)) ''images''
      = JStr ''ab'' \<and>
    (\<exists>q. parsePack (roomEmotes\<lparr>content := JObj [(''images'', JStr ''ab'')]\<rparr>)
            (Some sampleRoom) = Inr (Some q) \<and> images q = []))"
proof -
  let ?empty = "roomEmotes\<lparr>content := JObj [(''images'', JObj [])]\<rparr>"
  let ?str = "roomEmotes\<lparr>content := JObj [(''images'', JStr ''ab'')]\<rparr>"
  have a: "own_prop (content emoteRooms) ''images'' = JUndefined"
    by (simp add: emoteRooms_def)
  have b: "\<not> nullish (content ?empty) \<and> own_prop (content ?empty) ''images'' = JObj []"
    by (simp add: nullish_def)
  have c: "\<not> nullish (content ?str) \<and> own_prop (content ?str) ''images'' = JStr ''ab''"
    by (simp add: nullish_def)
  have 1: "\<not> nullish (content roomEmotes) \<and> \<not> nullish (own_prop (content roomEmotes) ''images'')"
    using parsePack_declared_images [of roomEmotes "Some sampleRoom" roomPack] sample_parse_room
    by simp
  have 2: "parsePack emoteRooms (Some sampleRoom) \<noteq> Inr (Some roomPack)"
    using parsePack_declared_images [of emoteRooms "Some sampleRoom" roomPack] a
    by simp
  have 3: "\<exists>q. parsePack ?empty (Some sampleRoom) = Inr (Some q) \<and> images q = []"
    using parsePack_declared_images [of ?empty "Some sampleRoom" roomPack] b
    by simp
  have 4: "\<exists>q. parsePack ?str (Some sampleRoom) = Inr (Some q) \<and> images q = []"
    using parsePack_declared_images [of ?str "Some sampleRoom" roomPack _ _ "''ab''"] c
    by simp
  from sample_parse_room a b c 1 2 3 4 show ?thesis
    by simp
qed

theorem getUserImagePack_absent_or_unnamed_witness:
  "(getAccountData emptyClient ''im.ponies.user_emotes'' = None \<and>
    getUserImagePack emptyClient = Inr None) \<and>
   (getAccountData sampleClient ''im.ponies.user_emotes'' = Some userEmotes \<and>
    parsePack userEmotes (None :: room_core option)
      = Inr (Some (personalPack\<lparr>displayName := JUndefined\<rparr>)) \<and>
    nullish (displayName (personalPack\<lparr>displayName := JUndefined\<rparr>)) \<and>
    getUserImagePack sampleClient = Inr (Some personalPack) \<and>
    displayName personalPack = JStr ''Your Emoji'')"
proof -
  have a: "getAccountData emptyClient ''im.ponies.user_emotes'' = None"
    by (simp add: emptyClient_def)
  have b: "getAccountData sampleClient ''im.ponies.user_emotes'' = Some userEmotes"
    by (simp add: sampleClient_def)
  have c: "nullish (displayName (personalPack\<lparr>displayName := JUndefined\<rparr>))"
    by (simp add: nullish_def)
  have d: "personalPack\<lparr>displayName := JUndefined\<rparr>\<lparr>displayName := JStr ''Your Emoji''\<rparr> = personalPack"
    "displayName personalPack = JStr ''Your Emoji''"
    by (simp_all add: personalPack_def)
  show ?thesis
    using a b c d sample_parse_user
      getUserImagePack_absent_or_unnamed [of emptyClient userEmotes personalPack]
      getUserImagePack_absent_or_unnamed
        [of sampleClient userEmotes "personalPack\<lparr>displayName := JUndefined\<rparr>"]
    by simp
qed

theorem getRelevantPacks_dedup_witness:
  "getUserImagePack (client sampleRoom) = Inr (Some personalPack) \<and>
   getPacksInRoom sampleRoom = Inr [roomPack] \<and>
   getFromImagePackRooms (client sampleRoom) = Inr [pack1, roomPack] \<and>
   getRelevantPacks sampleRoom
     = Inr (dedupFirst sourceEventId ([personalPack] @ [roomPack] @ [pack1, roomPack])) \<and>
   getRelevantPacks sampleRoom = Inr [personalPack, roomPack, pack1] \<and>
   distinct (map sourceEventId [personalPack, roomPack, pack1])"
  using sample_personal sample_inRoom sample_fromRooms sample_relevant
    getRelevantPacks_dedup [of sampleRoom "Some personalPack" "[roomPack]" "[pack1, roomPack]"
                               "[personalPack, roomPack, pack1]"]
  by simp

theorem getFromImagePackRooms_enabled_witness:
  "getAccountData sampleClient ''im.ponies.emote_rooms'' = Some emoteRooms \<and>
   \<not> nullish (content emoteRooms) \<and>
   own_prop (content emoteRooms) ''rooms'' = JObj (map (\<lambda>e. (fst e, JObj (snd e))) enabledRooms) \<and>
   getRoom sampleClient ''!r:x'' = Some packRoom \<and>
   getPacksInRoom packRoom = Inr [pack1, pack2] \<and>
   getRoom sampleClient ''!c:x'' = Some chatRoom \<and>
   getPacksInRoom chatRoom = Inr [roomPack] \<and>
   getRoom sampleClient ''!gone:x'' = None \<and>
   getFromImagePackRooms sampleClient = Inr (concat (map (enabledPacks sampleClient) enabledRooms)) \<and>
   getFromImagePackRooms sampleClient = Inr [pack1, roomPack]"
proof -
  have a: "getAccountData sampleClient ''im.ponies.emote_rooms'' = Some emoteRooms"
    by (simp add: sampleClient_def)
  have b: "\<not> nullish (content emoteRooms)"
    by (simp add: emoteRooms_def nullish_def)
  have c: "own_prop (content emoteRooms) ''rooms''
      = JObj (map (\<lambda>e. (fst e, JObj (snd e))) enabledRooms)"
    by (simp add: emoteRooms_def enabledRooms_def)
  have d: "\<forall>e\<in>set enabledRooms. \<forall>room'. getRoom sampleClient (fst e) = Some room' \<longrightarrow>
       getPacksInRoom room' \<noteq> Inl TypeError"
    using sample_packRoom sample_chatRoom by (simp add: enabledRooms_def sampleClient_def)
  have e: "getRoom sampleClient ''!r:x'' = Some packRoom"
    "getRoom sampleClient ''!c:x'' = Some chatRoom" "getRoom sampleClient ''!gone:x'' = None"
    by (simp_all add: sampleClient_def)
  from getFromImagePackRooms_enabled [OF a b c d] a b c e sample_packRoom sample_chatRoom
    sample_fromRooms
  show ?thesis by simp
qed

theorem getShortcodeToEmoji_priority_witness:
  "getShortcodeToEmoji sampleEmojis sampleRoom = Inr sampleMap \<and>
   getRelevantPacks sampleRoom = Inr [personalPack, roomPack, pack1] \<and>
   getUserImagePack (client sampleRoom) = Inr (Some personalPack) \<and>
   definesEmoji personalPack ''x'' (emoticonImage ''x'' ''mxc://u/x'') \<and>
   definesEmoji roomPack ''x'' (emoticonImage ''x'' ''mxc://c/x'') \<and>
   definesEmoji pack1 ''x'' (emoticonImage ''x'' ''mxc://r/x'') \<and>
   Map_get sampleMap ''x'' = Some (Custom (emoticonImage ''x'' ''mxc://u/x'')) \<and>
   priorityDefinition [personalPack, roomPack, pack1] ''grinning'' = None \<and>
   Map_get sampleMap ''grinning'' = Map_get (foldl setStandard [] sampleEmojis) ''grinning'' \<and>
   getShortcodeToEmoji sampleEmojis otherRoom = Inr otherMap \<and>
   getRelevantPacks otherRoom = Inr ([otherPersonal] @ roomPack # [pack1]) \<and>
   \<not> hasShortcode otherPersonal ''x'' \<and>
   Map_get otherMap ''x'' = Some (Custom (emoticonImage ''x'' ''mxc://c/x''))"
proof -
  have u: "getUserImagePack (client sampleRoom) = Inr (Some personalPack)"
    using sample_personal by simp
  have d: "definesEmoji personalPack ''x'' (emoticonImage ''x'' ''mxc://u/x'')"
    "definesEmoji roomPack ''x'' (emoticonImage ''x'' ''mxc://c/x'')"
    "definesEmoji pack1 ''x'' (emoticonImage ''x'' ''mxc://r/x'')"
    by (simp_all add: definesEmoji_def sample_getEmojis)
  have n: "\<not> hasShortcode otherPersonal ''x''"
    using sample_isEmoticon(1) by (simp add: hasShortcode_def otherPersonal_def)
  have g: "priorityDefinition [personalPack, roomPack, pack1] ''grinning'' = None"
    using sample_isEmoticon
    by (simp add: personalPack_def roomPack_def pack1_def)
  from getShortcodeToEmoji_priority [OF sample_getShortcodeToEmoji, of "''x''"] u d(1)
  have 1: "Map_get sampleMap ''x'' = Some (Custom (emoticonImage ''x'' ''mxc://u/x''))"
    by blast
  from getShortcodeToEmoji_priority [OF sample_getShortcodeToEmoji, of "''grinning''"]
    sample_relevant g
  have 2: "Map_get sampleMap ''grinning''
      = Map_get (foldl setStandard [] sampleEmojis) ''grinning''"
    by auto
  from getShortcodeToEmoji_priority [OF other_getShortcodeToEmoji, of "''x''"] other_relevant
  have "\<forall>higher pack lower e.
      [otherPersonal, roomPack, pack1] = higher @ pack # lower \<and>
      (\<forall>q\<in>set higher. \<not> hasShortcode q ''x'') \<and> definesEmoji pack ''x'' e \<longrightarrow>
      Map_get otherMap ''x'' = Some (Custom e)"
    by auto
  from this [rule_format, of "[otherPersonal]" roomPack "[pack1]" "emoticonImage ''x'' ''mxc://c/x''"]
    n d(2)
  have 3: "Map_get otherMap ''x'' = Some (Custom (emoticonImage ''x'' ''mxc://c/x''))"
    by simp
  from sample_getShortcodeToEmoji sample_relevant u d 1 g 2 other_getShortcodeToEmoji
    other_relevant n 3
  show ?thesis by simp
qed

theorem getEmojiForCompletion_shape_witness:
  "getEmojiForCompletion sampleEmojis sampleRoom = Inr sampleCompletion \<and>
   customEmojis sampleRoom =
     Inr [emoticonImage ''x'' ''mxc://r/x'', zedImage, emoticonImage ''x'' ''mxc://c/x'',
          emoticonImage ''x'' ''mxc://u/x''] \<and>
   length sampleCompletion = (2 - 1) + 2 \<and>
   distinct (map std_shortcode sampleEmojis) \<and>
   distinct (map emoji_shortcode sampleCompletion)"
proof -
  let ?cs = "[emoticonImage ''x'' ''mxc://r/x'', zedImage, emoticonImage ''x'' ''mxc://c/x'',
          emoticonImage ''x'' ''mxc://u/x'']"
  have d: "distinct (map std_shortcode sampleEmojis)"
    by (simp add: sampleEmojis_def grinning_def zzz_def)
  from getEmojiForCompletion_shape [OF sample_getEmojiForCompletion]
  obtain customs where c: "customEmojis sampleRoom = Inr customs"
    and len: "length sampleCompletion =
      (length sampleEmojis
        - length (filter (\<lambda>e. std_shortcode e \<in> set (map shortcode customs)) sampleEmojis))
      + length (remdups (map shortcode customs))"
    and dist: "distinct (map std_shortcode sampleEmojis) \<longrightarrow>
      distinct (map emoji_shortcode sampleCompletion)"
    by (elim exE conjE)
  from c have customs: "customs = ?cs"
    by (simp add: sample_customEmojis)
  have "map shortcode ?cs = [''x'', ''z'', ''x'', ''x'']"
    by simp
  with len have "length sampleCompletion = (2 - 1) + 2"
    unfolding customs by (simp add: sampleEmojis_def grinning_def zzz_def)
  with d dist sample_getEmojiForCompletion sample_customEmojis show ?thesis
    by simp
qed

theorem non_emoticon_excluded_witness:
  "\<not> isEmoticon stickerImage \<and> stickerImage \<in> set (images roomPack) \<and>
   getRelevantPacks sampleRoom = Inr [personalPack, roomPack, pack1] \<and>
   getShortcodeToEmoji sampleEmojis sampleRoom = Inr sampleMap \<and>
   Custom stickerImage \<notin> set (Map_values sampleMap) \<and>
   getEmojiForCompletion sampleEmojis sampleRoom = Inr sampleCompletion \<and>
   Custom stickerImage \<notin> set sampleCompletion"
proof -
  have a: "\<not> isEmoticon stickerImage"
    by (rule sample_isEmoticon)
  have b: "stickerImage \<in> set (images roomPack)"
    by (simp add: roomPack_def)
  from non_emoticon_excluded [OF a, of sampleEmojis sampleRoom sampleMap sampleCompletion]
    a b sample_relevant sample_getShortcodeToEmoji sample_getEmojiForCompletion
  show ?thesis by simp
qed

text \<open>
  Claim C6 says that \<open>parsePack\<close> returns \<open>null\<close>, and does not raise, for every pack event
  whose content has no images mapping, whatever the fallback room. It does so when the
  \<open>images\<close> property is absent; when the property is \<open>null\<close>, which is no mapping either,
  the test of the first line lets it pass and reading its entries raises a TypeError.
\<close>

theorem parsePack_null_images_raises:
  "parsePack \<lparr>content = JObj [(''pack'', JObj [])], state_key = Some ''p'',
              event_id = Some ''$6''\<rparr> room' = Inr None \<and>
   parsePack \<lparr>content = JObj [(''pack'', JObj []), (''images'', JNull)], state_key = Some ''p'',
              event_id = Some ''$6''\<rparr> room' = Inl TypeError"
  by (simp add: parsePack_def get_prop_def nullish_def Let_def)

text \<open>
  Claim C7 says that, for every pack event, an image entry without a media reference is
  left out of the image list of the parsed pack while its siblings with one are retained.
  An entry that is an object without \<open>url\<close>, or a string, is left out and the sibling
  stays; an entry that is \<open>null\<close> has no media reference either, and reading its \<open>url\<close>
  raises a TypeError: no pack is returned and the sibling is lost.
\<close>

theorem parsePack_null_entry_loses_sibling:
  "parsePack \<lparr>content = JObj [(''images'', JObj [(''a'', JObj [(''url'', JStr ''mxc://a'')]),
                                                  (''b'', JObj [(''body'', JStr ''B'')]),
                                                  (''c'', JStr ''junk'')])],
              state_key = Some ''p'', event_id = Some ''$7''\<rparr> (None :: room_core option)
     = Inr (Some \<lparr>displayName = JUndefined, avatar = JUndefined,
                  usage = JArr [JStr ''emoticon'', JStr ''sticker''], attribution = JUndefined,
                  images = [\<lparr>shortcode = ''a'', mxc = JStr ''mxc://a'', body = JStr ''a'',
                             info = JUndefined,
                             image_usage = JArr [JStr ''emoticon'', JStr ''sticker'']\<rparr>],
                  event = \<lparr>content = JObj [(''images'',
                                      JObj [(''a'', JObj [(''url'', JStr ''mxc://a'')]),
                                            (''b'', JObj [(''body'', JStr ''B'')]),
                                            (''c'', JStr ''junk'')])],
                            state_key = Some ''p'', event_id = Some ''$7''\<rparr>\<rparr>) \<and>
   parsePack \<lparr>content = JObj [(''images'', JObj [(''a'', JObj [(''url'', JStr ''mxc://a'')]),
                                                  (''b'', JNull)])],
              state_key = Some ''p'', event_id = Some ''$7''\<rparr> (None :: room_core option)
     = Inl TypeError"
  by (simp add: eval_defs)

text \<open>
  Claim C4 says that no operation of the resolver raises on malformed input. An image entry
  that is \<open>null\<close>, an images mapping that is \<open>null\<close> and a \<open>null\<close> in place of the enabled
  keys of a room each raise a TypeError, which every operation above passes on.
\<close>

theorem resolver_raises_on_null:
  "parsePack \<lparr>content = JObj [(''images'', JObj [(''x'', JNull)])], state_key = Some ''broken'',
              event_id = Some ''$b''\<rparr> (None :: room_core option) = Inl TypeError \<and>
   parsePack \<lparr>content = JObj [(''images'', JNull)], state_key = Some ''broken'',
              event_id = Some ''$b''\<rparr> (None :: room_core option) = Inl TypeError \<and>
   getFromImagePackRooms nullKeysClient = Inl TypeError \<and>
   getPacksInRoom brokenRoom = Inl TypeError \<and>
   getRelevantPacks brokenRoom = Inl TypeError \<and>
   getShortcodeToEmoji sampleEmojis brokenRoom = Inl TypeError \<and>
   getEmojiForCompletion sampleEmojis brokenRoom = Inl TypeError"
proof -
  have p: "getPacksInRoom brokenRoom = Inl TypeError"
    by (simp add: getPacksInRoom_def brokenRoom_def brokenEvent_def eval_defs)
  have u: "getUserImagePack (client brokenRoom) = Inr None"
    by (simp add: getUserImagePack_def brokenRoom_def emptyClient_def)
  from p u have r: "getRelevantPacks brokenRoom = Inl TypeError"
    by (simp add: getRelevantPacks_eq)
  have f: "getFromImagePackRooms nullKeysClient = Inl TypeError"
    by (simp add: getFromImagePackRooms_def packsOfEmoteRoom_def nullKeysClient_def eval_defs)
  from p r f show ?thesis
    by (simp add: getShortcodeToEmoji_eq getEmojiForCompletion_eq customEmojis_def eval_defs)
qed

end
